theory Spec2Isabelle
  imports Main "HOL-Library.Sublist" "HOL-Library.Monad_Syntax" "HOL-Library.Word"
begin

section \<open>Python values\<close>

text \<open>
  Python strings are modelled as HOL strings: lists of characters with code points
  below 256. Byte strings use the same type, one character per byte. Every Python
  exception that the modelled code can meet is a value of \<open>exn\<close>; all of them are
  subclasses of \<open>Exception\<close>, so an \<open>except Exception\<close> clause catches each one.
  A function that may raise returns \<open>exn + 'a\<close>, with \<open>Inl\<close> for the raised exception.
  Logging calls are left out: they do not change any value the functions return.
\<close>

datatype exn =
    ValueError string
  | TypeError string
  | AttributeError string
  | OtherError string

fun str_exn :: "exn \<Rightarrow> string" where
  "str_exn (ValueError m) = m"
| "str_exn (TypeError m) = m"
| "str_exn (AttributeError m) = m"
| "str_exn (OtherError m) = m"

text \<open>
  Library behaviour that is not embedded is a parameter: the UTF-8 codec on byte strings
  that hold a non-ASCII byte, and the validation of a bracketed host (an IP literal)
  inside \<open>urlsplit\<close>, which returns the exception it raises, if any.
\<close>

record pylib =
  utf8_replace :: "string \<Rightarrow> string"
  check_bracketed_host :: "string \<Rightarrow> exn option"

definition is_ascii :: "char \<Rightarrow> bool" where
  "is_ascii c = ((of_char c :: nat) < 128)"

definition is_digit :: "char \<Rightarrow> bool" where
  "is_digit c = (c \<in> set ''0123456789'')"

definition is_hexdig :: "char \<Rightarrow> bool" where
  "is_hexdig c = (c \<in> set ''0123456789ABCDEFabcdef'')"

definition is_ascii_alpha :: "char \<Rightarrow> bool" where
  "is_ascii_alpha c = (c \<in> set ''abcdefghijklmnopqrstuvwxyzABCDEFGHIJKLMNOPQRSTUVWXYZ'')"

text \<open>\<open>sub in s\<close> on strings.\<close>

fun str_contains :: "string \<Rightarrow> string \<Rightarrow> bool" where
  "str_contains sub [] = (sub = [])"
| "str_contains sub (c # cs) = (prefix sub (c # cs) \<or> str_contains sub cs)"

text \<open>
  \<open>s.split(sep)\<close> for a non-empty separator: a scan from the left; at a match the
  current part is closed and the separator's characters are skipped.
\<close>

fun split_from :: "string \<Rightarrow> nat \<Rightarrow> string \<Rightarrow> string \<Rightarrow> string list" where
  "split_from sep k cur [] = [rev cur]"
| "split_from sep (Suc k) cur (c # cs) = split_from sep k cur cs"
| "split_from sep 0 cur (c # cs) =
     (if prefix sep (c # cs) then rev cur # split_from sep (length sep - 1) [] cs
      else split_from sep 0 (c # cur) cs)"

definition str_split :: "string \<Rightarrow> string \<Rightarrow> string list" where
  "str_split sep s = split_from sep 0 [] s"

fun str_join :: "string \<Rightarrow> string list \<Rightarrow> string" where
  "str_join sep [] = []"
| "str_join sep [x] = x"
| "str_join sep (x # y # ys) = x @ sep @ str_join sep (y # ys)"

section \<open>urllib.parse\<close>

subsection \<open>unquote\<close>

definition hexval :: "char \<Rightarrow> nat" where
  "hexval c =
     (if is_digit c then of_char c - 48
      else if c \<in> set ''ABCDEF'' then of_char c - 55
      else of_char c - 87)"

text \<open>
  \<open>unquote_to_bytes\<close>: every \<open>%\<close> followed by two hexadecimal digits becomes the byte
  they denote; any other \<open>%\<close> stays. The library splits at \<open>%\<close> and looks at the first
  two characters of each piece; a piece holds no \<open>%\<close>, so this scan gives the same bytes.
\<close>

fun unquote_to_bytes :: "string \<Rightarrow> string" where
  "unquote_to_bytes [] = []"
| "unquote_to_bytes (c # cs) =
     (if c = CHR ''%'' then
        (case cs of
           a # b # rest \<Rightarrow>
             if is_hexdig a \<and> is_hexdig b
             then char_of (16 * hexval a + hexval b) # unquote_to_bytes rest
             else c # unquote_to_bytes cs
         | _ \<Rightarrow> c # unquote_to_bytes cs)
      else c # unquote_to_bytes cs)"

text \<open>\<open>bytes.decode('utf-8', 'replace')\<close>: the identity on ASCII bytes.\<close>

definition decode_utf8 :: "pylib \<Rightarrow> string \<Rightarrow> string" where
  "decode_utf8 lib bs = (if list_all is_ascii bs then bs else utf8_replace lib bs)"

text \<open>
  The maximal runs of ASCII and of non-ASCII characters of a string, in order
  (what \<open>_asciire.split\<close> yields, without its empty pieces).
\<close>

fun ascii_runs :: "string \<Rightarrow> string list" where
  "ascii_runs [] = []"
| "ascii_runs (c # cs) =
     (case ascii_runs cs of
        [] \<Rightarrow> [[c]]
      | r # rs \<Rightarrow> if is_ascii c = is_ascii (hd r) then (c # r) # rs else [c] # r # rs)"

definition unquote :: "pylib \<Rightarrow> string \<Rightarrow> string" where
  "unquote lib s =
     (if CHR ''%'' \<notin> set s then s
      else concat (map (\<lambda>r. if list_all is_ascii r
                             then decode_utf8 lib (unquote_to_bytes r) else r)
                       (ascii_runs s)))"

subsection \<open>urlparse\<close>

text \<open>
  The path component of \<open>urlparse(url)\<close>, following \<open>urlsplit\<close> and \<open>urlparse\<close> of
  CPython 3.11: leading control characters and spaces are stripped, tab, CR and LF are
  removed, a scheme is split off, then the network location, the fragment, the query
  and the parameters of the last path segment. \<open>_checknetloc\<close> only raises when NFKC
  normalisation of the host yields one of \<open>/?#@:\<close>, which no character below 256 does.
\<close>

definition scheme_chars :: "char set" where
  "scheme_chars =
     set ''abcdefghijklmnopqrstuvwxyzABCDEFGHIJKLMNOPQRSTUVWXYZ0123456789+-.''"

definition uses_params :: "string list" where
  "uses_params = ['''', ''ftp'', ''hdl'', ''prospero'', ''http'', ''imap'', ''https'',
     ''shttp'', ''rtsp'', ''rtsps'', ''rtspu'', ''sip'', ''sips'', ''mms'', ''sftp'', ''tel'']"

definition lower_char :: "char \<Rightarrow> char" where
  "lower_char c =
     (if c \<in> set ''ABCDEFGHIJKLMNOPQRSTUVWXYZ'' then char_of (of_char c + (32::nat)) else c)"

definition split_scheme :: "string \<Rightarrow> string \<times> string" where
  "split_scheme url =
     (let i = length (takeWhile (\<lambda>c. c \<noteq> CHR '':'') url)
      in if CHR '':'' \<in> set url \<and> 0 < i \<and> is_ascii_alpha (hd url)
            \<and> list_all (\<lambda>c. c \<in> scheme_chars) (take i url)
         then (map lower_char (take i url), drop (Suc i) url)
         else ('''', url))"

definition splitnetloc :: "string \<Rightarrow> string \<times> string" where
  "splitnetloc url =
     (let body = drop 2 url; stop = (\<lambda>c. c \<in> set ''/?#'')
      in (takeWhile (\<lambda>c. \<not> stop c) body, dropWhile (\<lambda>c. \<not> stop c) body))"

definition splitparams :: "string \<Rightarrow> string" where
  "splitparams url =
     (if CHR ''/'' \<in> set url then
        (let k = length url - Suc (length (takeWhile (\<lambda>c. c \<noteq> CHR ''/'') (rev url)));
             tl_seg = drop k url
         in if CHR '';'' \<in> set tl_seg
            then take k url @ takeWhile (\<lambda>c. c \<noteq> CHR '';'') tl_seg
            else url)
      else takeWhile (\<lambda>c. c \<noteq> CHR '';'') url)"

definition urlparse_path :: "pylib \<Rightarrow> string \<Rightarrow> exn + string" where
  "urlparse_path lib url0 =
     (let url1 = dropWhile (\<lambda>c. (of_char c :: nat) \<le> 32) url0;
          url2 = filter (\<lambda>c. c \<notin> {CHR 0x09, CHR 0x0D, CHR 0x0A}) url1;
          (scheme, url3) = split_scheme url2;
          (netloc, url4) = (if take 2 url3 = ''//'' then splitnetloc url3 else ('''', url3))
      in if (CHR ''['' \<in> set netloc \<and> CHR '']'' \<notin> set netloc)
            \<or> (CHR '']'' \<in> set netloc \<and> CHR ''['' \<notin> set netloc)
         then Inl (ValueError ''Invalid IPv6 URL'')
         else
           case (if CHR ''['' \<in> set netloc \<and> CHR '']'' \<in> set netloc
                 then check_bracketed_host lib
                        (takeWhile (\<lambda>c. c \<noteq> CHR '']'')
                           (drop 1 (dropWhile (\<lambda>c. c \<noteq> CHR ''['') netloc)))
                 else None) of
             Some e \<Rightarrow> Inl e
           | None \<Rightarrow>
           (let url5 = takeWhile (\<lambda>c. c \<noteq> CHR ''#'') url4;
                url6 = takeWhile (\<lambda>c. c \<noteq> CHR ''?'') url5
            in Inr (if scheme \<in> set uses_params \<and> CHR '';'' \<in> set url6
                    then splitparams url6 else url6)))"

section \<open>urls.py\<close>

record DocumentInfo =
  category :: string
  document_type :: string
  year :: string
  number :: string
  lang_and_version :: string
  authority :: "string option"

text \<open>Truth value of an \<open>Optional[str]\<close>: \<open>None\<close> and the empty string are false.\<close>

fun truthy_str :: "string option \<Rightarrow> bool" where
  "truthy_str None = False"
| "truthy_str (Some s) = (s \<noteq> [])"

subsection \<open>The two compiled patterns\<close>

text \<open>
  \<open>re_lit\<close> matches a literal, \<open>re_plus\<close> a greedy \<open>[...]+\<close>. Both patterns are applied
  with \<open>match\<close>, so they are anchored at the start. Backtracking never finds a
  second way to match: a shorter \<open>[^/]+\<close> or \<open>\d+\<close> would have to be followed by a
  character of its own class where the pattern asks for \<open>/\<close>, and the three category
  words are no prefixes of one another. The final \<open>$\<close> holds at the end of the string
  (or before a last newline, which the greedy \<open>[^/]+\<close> has then already taken), so
  the last group is the whole rest and must hold no \<open>/\<close>.
\<close>

definition re_lit :: "string \<Rightarrow> string \<Rightarrow> string option" where
  "re_lit l s = (if prefix l s then Some (drop (length l) s) else None)"

definition re_plus :: "(char \<Rightarrow> bool) \<Rightarrow> string \<Rightarrow> (string \<times> string) option" where
  "re_plus P s = (if takeWhile P s = [] then None else Some (takeWhile P s, dropWhile P s))"

definition not_slash :: "char \<Rightarrow> bool" where
  "not_slash c = (c \<noteq> CHR ''/'')"

definition re_category :: "string \<Rightarrow> (string \<times> string) option" where
  "re_category s =
     (if prefix ''act'' s then Some (''act'', drop 3 s)
      else if prefix ''judgment'' s then Some (''judgment'', drop 8 s)
      else if prefix ''doc'' s then Some (''doc'', drop 3 s)
      else None)"

text \<open>The groups \<open>(category, type, year, number, lang)\<close> of \<open>STANDARD_PATTERN.match\<close>.\<close>

definition STANDARD_PATTERN ::
  "string \<Rightarrow> (string \<times> string \<times> string \<times> string \<times> string) option" where
  "STANDARD_PATTERN path =
     do {
       r0 \<leftarrow> re_lit ''/akn/fi/'' path;
       (cat, r1) \<leftarrow> re_category r0;
       r2 \<leftarrow> re_lit ''/'' r1;
       (ty, r3) \<leftarrow> re_plus not_slash r2;
       r4 \<leftarrow> re_lit ''/'' r3;
       (yr, r5) \<leftarrow> re_plus is_digit r4;
       r6 \<leftarrow> re_lit ''/'' r5;
       (num, r7) \<leftarrow> re_plus not_slash r6;
       r8 \<leftarrow> re_lit ''/'' r7;
       (lang, r9) \<leftarrow> re_plus not_slash r8;
       if r9 = [] then Some (cat, ty, yr, num, lang) else None
     }"

text \<open>The groups \<open>(authority, year, number, lang)\<close> of \<open>AUTHORITY_PATTERN.match\<close>.\<close>

definition AUTHORITY_PATTERN ::
  "string \<Rightarrow> (string \<times> string \<times> string \<times> string) option" where
  "AUTHORITY_PATTERN path =
     do {
       r0 \<leftarrow> re_lit ''/akn/fi/doc/authority-regulation/'' path;
       (auth, r1) \<leftarrow> re_plus not_slash r0;
       r2 \<leftarrow> re_lit ''/'' r1;
       (yr, r3) \<leftarrow> re_plus is_digit r2;
       r4 \<leftarrow> re_lit ''/'' r3;
       (num, r5) \<leftarrow> re_plus not_slash r4;
       r6 \<leftarrow> re_lit ''/'' r5;
       (lang, r7) \<leftarrow> re_plus not_slash r6;
       if r7 = [] then Some (auth, yr, num, lang) else None
     }"

subsection \<open>parse\_akn\_uri\<close>

text \<open>The second half of \<open>parse_akn_uri\<close>: the authority pattern first, then the standard one.\<close>

definition match_akn_path :: "string \<Rightarrow> DocumentInfo option" where
  "match_akn_path path =
     (case AUTHORITY_PATTERN path of
        Some (auth, yr, num, lang) \<Rightarrow>
          Some \<lparr>category = ''doc'', document_type = ''authority-regulation'', year = yr,
                number = num, lang_and_version = lang, authority = Some auth\<rparr>
      | None \<Rightarrow>
          (case STANDARD_PATTERN path of
             Some (cat, ty, yr, num, lang) \<Rightarrow>
               Some \<lparr>category = cat, document_type = ty, year = yr,
                     number = num, lang_and_version = lang, authority = None\<rparr>
           | None \<Rightarrow> None))"

definition parse_akn_uri :: "pylib \<Rightarrow> string \<Rightarrow> exn + DocumentInfo option" where
  "parse_akn_uri lib uri =
     (if prefix ''http'' uri then
        (case urlparse_path lib uri of
           Inl e \<Rightarrow> Inl e
         | Inr parsed_path \<Rightarrow>
             (let path = unquote lib parsed_path;
                  path' = (if str_contains ''/finlex/avoindata/v1'' path
                           then last (str_split ''/finlex/avoindata/v1'' path) else path)
              in Inr (match_akn_path path')))
      else Inr (match_akn_path (unquote lib uri)))"

definition build_api_path :: "DocumentInfo \<Rightarrow> string" where
  "build_api_path info =
     (if truthy_str (authority info) then
        ''/akn/fi/'' @ category info @ ''/'' @ document_type info @ ''/''
          @ the (authority info) @ ''/'' @ year info @ ''/'' @ number info @ ''/''
          @ lang_and_version info
      else
        ''/akn/fi/'' @ category info @ ''/'' @ document_type info @ ''/''
          @ year info @ ''/'' @ number info @ ''/'' @ lang_and_version info)"

definition build_list_path :: "string \<Rightarrow> string \<Rightarrow> string" where
  "build_list_path cat doc_type =
     (if doc_type = ''authority-regulation''
      then ''/akn/fi/'' @ cat @ ''/'' @ doc_type @ ''/list''
      else ''/akn/fi/'' @ cat @ ''/'' @ doc_type @ ''/list'')"

subsection \<open>pathlib\<close>

text \<open>
  A \<open>PurePosixPath\<close> is its root (empty, \<open>/\<close> or \<open>//\<close>) and its parts. Each argument
  of the constructor is split at \<open>/\<close>; empty pieces and single dots are dropped; an
  argument that starts with \<open>/\<close> discards what came before it.
\<close>

datatype path = Path (root: string) (parts: "string list")

definition parse_part :: "string \<Rightarrow> path" where
  "parse_part part =
     (let clean = filter (\<lambda>x. x \<noteq> [] \<and> x \<noteq> ''.'')
      in if part \<noteq> [] \<and> hd part = CHR ''/'' then
           (let stripped = dropWhile (\<lambda>c. c = CHR ''/'') part
            in Path (if length part - length stripped = 2 then ''//'' else ''/'')
                    (clean (str_split ''/'' stripped)))
         else Path [] (clean (str_split ''/'' part)))"

text \<open>The operator \<open>/\<close> on paths.\<close>

definition joinpath :: "path \<Rightarrow> path \<Rightarrow> path" where
  "joinpath p q = (if root q \<noteq> [] then q else Path (root p) (parts p @ parts q))"

definition PurePath :: "string list \<Rightarrow> path" where
  "PurePath args = foldl joinpath (Path [] []) (map parse_part args)"

definition str_path :: "path \<Rightarrow> string" where
  "str_path p =
     (if root p = [] \<and> parts p = [] then ''.'' else root p @ str_join ''/'' (parts p))"

definition path_name :: "path \<Rightarrow> string" where
  "path_name p = (if parts p = [] then [] else last (parts p))"

definition folder_path :: "DocumentInfo \<Rightarrow> path" where
  "folder_path info =
     (if truthy_str (authority info) then
        PurePath [category info, document_type info, the (authority info), year info,
                  number info, lang_and_version info]
      else
        PurePath [category info, document_type info, year info, number info,
                  lang_and_version info])"

section \<open>client.py\<close>

text \<open>
  A parsed JSON value. A float is its IEEE 754 bit pattern; an object is the list of
  its entries in order, with distinct keys.
\<close>

datatype json =
    JNull
  | JBool bool
  | JInt int
  | JFloat "64 word"
  | JStr string
  | JArr "json list"
  | JObj "(string \<times> json) list"

fun truthy :: "json \<Rightarrow> bool" where
  "truthy JNull = False"
| "truthy (JBool b) = b"
| "truthy (JInt i) = (i \<noteq> 0)"
| "truthy (JFloat w) = (push_bit 1 w \<noteq> 0)"
| "truthy (JStr s) = (s \<noteq> [])"
| "truthy (JArr xs) = (xs \<noteq> [])"
| "truthy (JObj kvs) = (kvs \<noteq> [])"

text \<open>\<open>d.get(k, default)\<close>.\<close>

definition dict_get :: "(string \<times> json) list \<Rightarrow> string \<Rightarrow> json \<Rightarrow> json" where
  "dict_get d k dflt = (case map_of d k of None \<Rightarrow> dflt | Some v \<Rightarrow> v)"

text \<open>
  A request as \<open>FinlexClient.get\<close> hands it to the HTTP session, and the part of the
  response that the callers read: \<open>json_of\<close> is what \<open>response.json()\<close> returns, \<open>None\<close>
  when it raises \<open>ValueError\<close>. The session with its retries and its pacing is a
  function from requests to responses or to the exception it raises.
\<close>

record request =
  url :: string
  params :: "(string \<times> json) list option"
  accept :: string

record response =
  status_code :: int
  content :: string
  json_of :: "json option"

type_synonym session = "request \<Rightarrow> exn + response"

definition BASE_URL :: string where
  "BASE_URL = ''https://opendata.finlex.fi/finlex/avoindata/v1''"

definition client_request :: "string \<Rightarrow> (string \<times> json) list option \<Rightarrow> string \<Rightarrow> request" where
  "client_request p ps acc =
     \<lparr>url = (if prefix ''/'' p then BASE_URL @ p else BASE_URL @ ''/'' @ p),
      params = ps, accept = acc\<rparr>"

text \<open>\<open>FinlexClient.get\<close>: the request it sends and what comes back.\<close>

definition client_get ::
  "session \<Rightarrow> string \<Rightarrow> (string \<times> json) list option \<Rightarrow> string \<Rightarrow> request \<times> (exn + response)" where
  "client_get sess p ps acc = (client_request p ps acc, sess (client_request p ps acc))"

definition get_json ::
  "session \<Rightarrow> string \<Rightarrow> (string \<times> json) list option \<Rightarrow> request \<times> (exn + response)" where
  "get_json sess p ps = client_get sess p ps ''application/json''"

definition get_xml ::
  "session \<Rightarrow> string \<Rightarrow> (string \<times> json) list option \<Rightarrow> request \<times> (exn + response)" where
  "get_xml sess p ps = client_get sess p ps ''application/xml''"

definition get_pdf ::
  "session \<Rightarrow> string \<Rightarrow> (string \<times> json) list option \<Rightarrow> request \<times> (exn + response)" where
  "get_pdf sess p ps = client_get sess p ps ''application/pdf''"

definition get_zip ::
  "session \<Rightarrow> string \<Rightarrow> (string \<times> json) list option \<Rightarrow> request \<times> (exn + response)" where
  "get_zip sess p ps = client_get sess p ps ''application/zip''"

section \<open>listing.py\<close>

text \<open>
  The fields of \<open>ListItem\<close> and \<open>ListConfig\<close> carry a prefix, since a field name
  belongs to one record. \<open>ListItem\<close> holds whatever \<open>item.get\<close> returned.
\<close>

record ListItem =
  item_akn_uri :: json
  item_status :: json

record ListConfig =
  cfg_category :: string
  cfg_document_type :: string
  cfg_lang_and_version :: string
  cfg_start_year :: "int option"
  cfg_end_year :: "int option"
  cfg_limit :: int
  cfg_max_pages :: "int option"

text \<open>Truth value of an \<open>Optional[int]\<close>: \<open>None\<close> and \<open>0\<close> are false.\<close>

fun truthy_int :: "int option \<Rightarrow> bool" where
  "truthy_int None = False"
| "truthy_int (Some i) = (i \<noteq> 0)"

text \<open>The query parameters of one page request, in insertion order.\<close>

definition list_params :: "ListConfig \<Rightarrow> int \<Rightarrow> (string \<times> json) list" where
  "list_params config page =
     [(''format'', JStr ''json''), (''page'', JInt page), (''limit'', JInt (cfg_limit config)),
      (''langAndVersion'', JStr (cfg_lang_and_version config))]
     @ (if truthy_int (cfg_start_year config)
        then [(''startYear'', JInt (the (cfg_start_year config)))] else [])
     @ (if truthy_int (cfg_end_year config)
        then [(''endYear'', JInt (the (cfg_end_year config)))] else [])"

text \<open>
  \<open>for item in items: yield ListItem(item.get(...), item.get(...))\<close> over a list: the
  items yielded, and the \<open>AttributeError\<close> of the first element that is no object.
\<close>

fun yield_items :: "json list \<Rightarrow> ListItem list \<times> exn option" where
  "yield_items [] = ([], None)"
| "yield_items (JObj kvs # rest) =
     (let (ys, e) = yield_items rest
      in (\<lparr>item_akn_uri = dict_get kvs ''akn_uri'' (JStr []),
           item_status = dict_get kvs ''status'' (JStr [])\<rparr> # ys, e))"
| "yield_items (v # rest) = ([], Some (AttributeError ''object has no attribute get''))"

text \<open>
  What iterating a truthy JSON value yields: the elements of a list, the keys of an
  object, the characters of a string; a number or a boolean is not iterable.
\<close>

fun iterate :: "json \<Rightarrow> exn + json list" where
  "iterate (JArr xs) = Inr xs"
| "iterate (JObj kvs) = Inr (map (\<lambda>kv. JStr (fst kv)) kvs)"
| "iterate (JStr s) = Inr (map (\<lambda>c. JStr [c]) s)"
| "iterate v = Inl (TypeError ''object is not iterable'')"

fun py_len :: "json \<Rightarrow> int" where
  "py_len (JArr xs) = int (length xs)"
| "py_len (JObj kvs) = int (length kvs)"
| "py_len (JStr s) = int (length s)"
| "py_len v = 0"

text \<open>
  Why the generator stopped. \<open>Raised\<close> is an exception that leaves the generator;
  \<open>OutOfFuel\<close> is the model's own: the loop was still running when the fuel ended.
\<close>

datatype stop =
    PageLimit
  | RequestFailed
  | BadJson
  | EndOfData
  | ShortPage
  | Raised exn
  | OutOfFuel

record listing =
  yielded :: "ListItem list"
  requested :: "request list"
  stopped :: stop

text \<open>
  The \<open>while True\<close> loop of \<open>list_documents\<close>, drained by its consumer. The first
  argument bounds the number of iterations. \<open>py_len\<close> is only reached for a list, since
  any other truthy value has raised in the \<open>for\<close> loop before.
\<close>

fun list_loop :: "nat \<Rightarrow> session \<Rightarrow> ListConfig \<Rightarrow> string \<Rightarrow> int \<Rightarrow> listing" where
  "list_loop 0 sess config p page = \<lparr>yielded = [], requested = [], stopped = OutOfFuel\<rparr>"
| "list_loop (Suc fuel) sess config p page =
     (if truthy_int (cfg_max_pages config) \<and> page > the (cfg_max_pages config)
      then \<lparr>yielded = [], requested = [], stopped = PageLimit\<rparr>
      else
        (let (req, res) = get_json sess p (Some (list_params config page))
         in case res of
              Inl e \<Rightarrow> \<lparr>yielded = [], requested = [req], stopped = Raised e\<rparr>
            | Inr resp \<Rightarrow>
                if status_code resp \<noteq> 200
                then \<lparr>yielded = [], requested = [req], stopped = RequestFailed\<rparr>
                else
                  (case json_of resp of
                     None \<Rightarrow> \<lparr>yielded = [], requested = [req], stopped = BadJson\<rparr>
                   | Some items \<Rightarrow>
                       if \<not> truthy items
                       then \<lparr>yielded = [], requested = [req], stopped = EndOfData\<rparr>
                       else
                         (case iterate items of
                            Inl e \<Rightarrow> \<lparr>yielded = [], requested = [req], stopped = Raised e\<rparr>
                          | Inr elems \<Rightarrow>
                              (case yield_items elems of
                                 (ys, Some e) \<Rightarrow>
                                   \<lparr>yielded = ys, requested = [req], stopped = Raised e\<rparr>
                               | (ys, None) \<Rightarrow>
                                   if py_len items < cfg_limit config
                                   then \<lparr>yielded = ys, requested = [req], stopped = ShortPage\<rparr>
                                   else
                                     (let r = list_loop fuel sess config p (page + 1)
                                      in \<lparr>yielded = ys @ yielded r,
                                          requested = req # requested r,
                                          stopped = stopped r\<rparr>))))))"

definition list_documents :: "nat \<Rightarrow> session \<Rightarrow> ListConfig \<Rightarrow> listing" where
  "list_documents fuel sess config =
     list_loop fuel sess config
       (build_list_path (cfg_category config) (cfg_document_type config)) 1"

section \<open>cli.py\<close>

text \<open>
  The command-line arguments that \<open>run_download\<close> copies into the \<open>ListConfig\<close> of each
  document type, and that \<open>ListConfig\<close> (lines 220 to 229 of cli.py).
\<close>

record args =
  args_lang :: string
  args_limit :: int
  args_max_pages :: "int option"

definition run_download_list_config ::
  "args \<Rightarrow> string \<Rightarrow> string \<Rightarrow> int \<Rightarrow> int \<Rightarrow> ListConfig" where
  "run_download_list_config a actual_category doc_type start_year end_year =
     \<lparr>cfg_category = actual_category, cfg_document_type = doc_type,
      cfg_lang_and_version = args_lang a, cfg_start_year = Some start_year,
      cfg_end_year = Some end_year, cfg_limit = min (args_limit a) 10,
      cfg_max_pages = args_max_pages a\<rparr>"

section \<open>state.py\<close>

text \<open>
  Python does not check the declared types of the fields, so a \<open>DownloadState\<close> holds
  JSON values: \<open>JNull\<close> for \<open>None\<close>, \<open>JStr\<close> for a string, \<open>JInt\<close> for the page.
  The set of completed uris is a set of such values.
\<close>

record DownloadState =
  current_category :: json
  current_document_type :: json
  current_page :: json
  last_uri :: json
  completed_uris :: "json set"
  started_at :: json
  updated_at :: json

definition DownloadState_default :: DownloadState where
  "DownloadState_default =
     \<lparr>current_category = JNull, current_document_type = JNull, current_page = JInt 1,
      last_uri = JNull, completed_uris = {}, started_at = JNull, updated_at = JNull\<rparr>"

text \<open>
  \<open>to_dict\<close>. \<open>list(self.completed_uris)\<close> lists the set in an order that Python does
  not fix; the order is the parameter \<open>ord\<close>.
\<close>

definition to_dict :: "(json set \<Rightarrow> json list) \<Rightarrow> DownloadState \<Rightarrow> (string \<times> json) list" where
  "to_dict ord s =
     [(''current_category'', current_category s),
      (''current_document_type'', current_document_type s),
      (''current_page'', current_page s),
      (''last_uri'', last_uri s),
      (''completed_uris'', JArr (ord (completed_uris s))),
      (''started_at'', started_at s),
      (''updated_at'', updated_at s)]"

text \<open>\<open>set(v)\<close>: the elements that iterating \<open>v\<close> yields; lists and objects cannot be hashed.\<close>

fun hashable :: "json \<Rightarrow> bool" where
  "hashable (JArr xs) = False"
| "hashable (JObj kvs) = False"
| "hashable v = True"

definition py_set :: "json \<Rightarrow> exn + json set" where
  "py_set v =
     (case iterate v of
        Inl e \<Rightarrow> Inl e
      | Inr xs \<Rightarrow> if list_all hashable xs then Inr (set xs)
                  else Inl (TypeError ''unhashable type''))"

definition from_dict :: "(string \<times> json) list \<Rightarrow> exn + DownloadState" where
  "from_dict data =
     (case py_set (dict_get data ''completed_uris'' (JArr [])) of
        Inl e \<Rightarrow> Inl e
      | Inr uris \<Rightarrow>
          Inr \<lparr>current_category = dict_get data ''current_category'' JNull,
               current_document_type = dict_get data ''current_document_type'' JNull,
               current_page = dict_get data ''current_page'' (JInt 1),
               last_uri = dict_get data ''last_uri'' JNull,
               completed_uris = uris,
               started_at = dict_get data ''started_at'' JNull,
               updated_at = dict_get data ''updated_at'' JNull\<rparr>)"

record StateManager =
  state_file :: path
  state :: DownloadState

definition StateManager_init :: "path \<Rightarrow> StateManager" where
  "StateManager_init f = \<lparr>state_file = f, state = DownloadState_default\<rparr>"

text \<open>
  What one call of \<open>save\<close> meets: the clock, and the exception of
  \<open>state_file.parent.mkdir\<close>, if it raises one. Writing the file happens inside
  \<open>try\<close>, so a failure there is logged and changes nothing that is returned; the bytes
  written are not modelled. Each operation returns the exception that reaches the
  caller, if any, and the manager as it is afterwards.
\<close>

record save_io =
  io_now :: string
  io_mkdir_error :: "exn option"

definition save :: "save_io \<Rightarrow> StateManager \<Rightarrow> exn option \<times> StateManager" where
  "save io m = (io_mkdir_error io, m\<lparr>state := (state m)\<lparr>updated_at := JStr (io_now io)\<rparr>\<rparr>)"

definition start_session ::
  "string \<Rightarrow> save_io \<Rightarrow> string \<Rightarrow> string \<Rightarrow> StateManager \<Rightarrow> exn option \<times> StateManager" where
  "start_session t0 io cat doc_type m =
     (let s0 = state m;
          s1 = (if started_at s0 = JNull then s0\<lparr>started_at := JStr t0\<rparr> else s0)
      in save io (m\<lparr>state := s1\<lparr>current_category := JStr cat,
                                 current_document_type := JStr doc_type\<rparr>\<rparr>))"

definition mark_completed :: "save_io \<Rightarrow> string \<Rightarrow> StateManager \<Rightarrow> exn option \<times> StateManager" where
  "mark_completed io uri m =
     save io (m\<lparr>state := (state m)\<lparr>completed_uris := insert (JStr uri) (completed_uris (state m)),
                                   last_uri := JStr uri\<rparr>\<rparr>)"

definition is_completed :: "StateManager \<Rightarrow> string \<Rightarrow> bool" where
  "is_completed m uri = (JStr uri \<in> completed_uris (state m))"

definition set_page :: "save_io \<Rightarrow> int \<Rightarrow> StateManager \<Rightarrow> exn option \<times> StateManager" where
  "set_page io page m = save io (m\<lparr>state := (state m)\<lparr>current_page := JInt page\<rparr>\<rparr>)"

definition get_resume_page :: "StateManager \<Rightarrow> string \<Rightarrow> string \<Rightarrow> json" where
  "get_resume_page m cat doc_type =
     (if current_category (state m) = JStr cat \<and> current_document_type (state m) = JStr doc_type
      then current_page (state m) else JInt 1)"

text \<open>
  A history of a manager: the calls made on it, each with what it met. A call that
  raises leaves the manager as it was at the raise, and the history goes on from there.
\<close>

datatype call =
    StartSession string string string
  | MarkCompleted string
  | SetPage int
  | Save

fun do_call :: "save_io \<times> call \<Rightarrow> StateManager \<Rightarrow> StateManager" where
  "do_call (io, StartSession t0 cat doc_type) m = snd (start_session t0 io cat doc_type m)"
| "do_call (io, MarkCompleted uri) m = snd (mark_completed io uri m)"
| "do_call (io, SetPage page) m = snd (set_page io page m)"
| "do_call (io, Save) m = snd (save io m)"

definition do_calls :: "(save_io \<times> call) list \<Rightarrow> StateManager \<Rightarrow> StateManager" where
  "do_calls cs m = fold do_call cs m"

section \<open>downloader.py\<close>

subsection \<open>extract\_media\_links\<close>

text \<open>
  A parsed document: an element has a qualified name (namespace and local name), its
  attributes and its child elements, in document order. Text, comments and processing
  instructions carry no attributes and are left out.
\<close>

datatype xml =
  Element (tag: "string \<times> string")
          (attrs: "((string \<times> string) \<times> string) list")
          (children: "xml list")

definition AKN_NS :: string where
  "AKN_NS = ''http://docs.oasis-open.org/legaldocml/ns/akn/3.0''"

fun descendants_or_self :: "xml \<Rightarrow> xml list" where
  "descendants_or_self (Element t a cs) =
     Element t a cs # concat (map descendants_or_self cs)"

text \<open>The values of the attribute \<open>name\<close> (in no namespace) of an element.\<close>

definition attr_values :: "string \<Rightarrow> xml \<Rightarrow> string list" where
  "attr_values name e = map snd (filter (\<lambda>kv. fst kv = ([], name)) (attrs e))"

definition akn_elements :: "string \<Rightarrow> xml \<Rightarrow> xml list" where
  "akn_elements name t = filter (\<lambda>e. tag e = (AKN_NS, name)) (descendants_or_self t)"

text \<open>The three XPath queries: \<open>//akn:img/@src\<close>, \<open>//akn:attachment//@href\<close>, \<open>//akn:ref/@href\<close>.\<close>

definition xpath_img_src :: "xml \<Rightarrow> string list" where
  "xpath_img_src t = concat (map (attr_values ''src'') (akn_elements ''img'' t))"

definition xpath_attachment_href :: "xml \<Rightarrow> string list" where
  "xpath_attachment_href t =
     concat (map (attr_values ''href'')
                 (concat (map descendants_or_self (akn_elements ''attachment'' t))))"

definition xpath_ref_href :: "xml \<Rightarrow> string list" where
  "xpath_ref_href t = concat (map (attr_values ''href'') (akn_elements ''ref'' t))"

text \<open>
  \<open>extract_media_links\<close>, with the parser \<open>etree.fromstring\<close> as a parameter. The
  function returns \<open>list(set(links))\<close>, a list of the distinct links in an order that
  Python does not fix: the model returns the set, and the caller asks its environment
  for the order. An attribute that XPath reaches twice is one node there and may be
  two list entries here; the set is the same.
\<close>

definition extract_media_links :: "(string \<Rightarrow> exn + xml) \<Rightarrow> string \<Rightarrow> string set" where
  "extract_media_links fromstring xml_content =
     (case fromstring xml_content of
        Inl e \<Rightarrow> {}
      | Inr t \<Rightarrow>
          set (filter (prefix ''media/'') (xpath_img_src t)
               @ filter (prefix ''media/'') (xpath_attachment_href t)
               @ filter (prefix ''media/'') (xpath_ref_href t)))"

subsection \<open>download\_document\<close>

record DownloadResult =
  akn_uri :: string
  status :: string
  timestamp :: string
  files :: "string list"
  error :: "string option"

record DownloadOptions =
  output_dir :: path
  fetch_pdf :: bool
  fetch_zip :: bool
  fetch_media :: bool
  force :: bool
  dry_run :: bool

text \<open>
  What a call of \<open>download_document\<close> meets: the libraries, the clock, the HTTP session,
  and the file system, which answers \<open>exists\<close> and says which \<open>mkdir\<close> and which
  \<open>write_bytes\<close> raise. The call returns its result, or the exception that leaves it,
  and the requests and file operations it attempted, in order.
\<close>

record env =
  lib :: pylib
  now :: string
  http :: session
  path_exists :: "string \<Rightarrow> bool"
  mkdir_error :: "string \<Rightarrow> exn option"
  write_error :: "string \<Rightarrow> string \<Rightarrow> exn option"
  fromstring :: "string \<Rightarrow> exn + xml"
  set_order :: "string set \<Rightarrow> string list"

datatype event =
    Request request
  | Mkdir string
  | Write string string

text \<open>\<open>str(n)\<close> for an integer.\<close>

fun str_nat :: "nat \<Rightarrow> string" where
  "str_nat n =
     (if n < 10 then [char_of (48 + n)]
      else str_nat (n div 10) @ [char_of (48 + n mod 10)])"

declare str_nat.simps [simp del]

definition str_int :: "int \<Rightarrow> string" where
  "str_int i = (if i < 0 then CHR ''-'' # str_nat (nat (- i)) else str_nat (nat i))"

text \<open>
  One best-effort fetch (the PDF, the ZIP, or one media file): the request has been
  made; on status 200 the body is written to \<open>target\<close> and the file is recorded. An
  exception of the request or of the write is logged, and so is any other status.
\<close>

definition fetch_optional ::
  "env \<Rightarrow> request \<times> (exn + response) \<Rightarrow> string \<Rightarrow> string list \<times> event list
     \<Rightarrow> string list \<times> event list" where
  "fetch_optional e rr target st =
     (case snd rr of
        Inl ex \<Rightarrow> (fst st, snd st @ [Request (fst rr)])
      | Inr resp \<Rightarrow>
          if status_code resp = 200 then
            (case write_error e target (content resp) of
               Some ex \<Rightarrow> (fst st, snd st @ [Request (fst rr), Write target (content resp)])
             | None \<Rightarrow> (fst st @ [target],
                        snd st @ [Request (fst rr), Write target (content resp)]))
          else (fst st, snd st @ [Request (fst rr)]))"

definition fetch_media_link ::
  "env \<Rightarrow> string \<Rightarrow> path \<Rightarrow> string list \<times> event list \<Rightarrow> string \<Rightarrow> string list \<times> event list" where
  "fetch_media_link e api_path media_dir st link =
     fetch_optional e
       (client_get (http e) (api_path @ ''/'' @ link) None ''application/xml'')
       (str_path (joinpath media_dir (parse_part (path_name (parse_part link))))) st"

text \<open>Lines 110 to 156: the optional assets, after \<open>main.xml\<close> has been written.\<close>

definition fetch_assets ::
  "env \<Rightarrow> DownloadResult \<Rightarrow> DownloadOptions \<Rightarrow> string \<Rightarrow> path \<Rightarrow> string \<Rightarrow> event list
     \<Rightarrow> (exn + DownloadResult) \<times> event list" where
  "fetch_assets e result options api_path doc_dir xml_content tr =
     (let st0 = (files result, tr);
          st1 = (if fetch_pdf options
                 then fetch_optional e (get_pdf (http e) (api_path @ ''/main.pdf'') None)
                        (str_path (joinpath doc_dir (parse_part ''main.pdf''))) st0
                 else st0);
          st2 = (if fetch_zip options
                 then fetch_optional e (get_zip (http e) (api_path @ ''/main.akn'') None)
                        (str_path (joinpath doc_dir (parse_part ''main.zip''))) st1
                 else st1);
          media_links = set_order e (extract_media_links (fromstring e) xml_content);
          media_dir = joinpath doc_dir (parse_part ''media'')
      in if fetch_media options \<and> media_links \<noteq> [] then
           (case mkdir_error e (str_path media_dir) of
              Some ex \<Rightarrow> (Inl ex, snd st2 @ [Mkdir (str_path media_dir)])
            | None \<Rightarrow>
                (let st3 = foldl (fetch_media_link e api_path media_dir)
                             (fst st2, snd st2 @ [Mkdir (str_path media_dir)]) media_links
                 in (Inr (result\<lparr>status := ''success'', files := fst st3\<rparr>), snd st3)))
         else (Inr (result\<lparr>status := ''success'', files := fst st2\<rparr>), snd st2))"

text \<open>Lines 91 to 108: the request for the XML and the write of \<open>main.xml\<close>.\<close>

definition fetch_xml ::
  "env \<Rightarrow> DownloadResult \<Rightarrow> DownloadOptions \<Rightarrow> DocumentInfo \<Rightarrow> path \<Rightarrow> path \<Rightarrow> event list
     \<Rightarrow> (exn + DownloadResult) \<times> event list" where
  "fetch_xml e result options info doc_dir xml_path tr =
     (let api_path = build_api_path info;
          (req, res) = get_xml (http e) api_path None
      in case res of
           Inl ex \<Rightarrow>
             (Inr (result\<lparr>error := Some (''Failed to fetch XML: '' @ str_exn ex)\<rparr>),
              tr @ [Request req])
         | Inr resp \<Rightarrow>
             if status_code resp \<noteq> 200 then
               (Inr (result\<lparr>error :=
                       Some (''HTTP '' @ str_int (status_code resp) @ '' fetching XML'')\<rparr>),
                tr @ [Request req])
             else
               (case write_error e (str_path xml_path) (content resp) of
                  Some ex \<Rightarrow>
                    (Inr (result\<lparr>error := Some (''Failed to fetch XML: '' @ str_exn ex)\<rparr>),
                     tr @ [Request req, Write (str_path xml_path) (content resp)])
                | None \<Rightarrow>
                    fetch_assets e (result\<lparr>files := files result @ [str_path xml_path]\<rparr>)
                      options api_path doc_dir (content resp)
                      (tr @ [Request req, Write (str_path xml_path) (content resp)])))"

definition download_document ::
  "env \<Rightarrow> string \<Rightarrow> DownloadOptions \<Rightarrow> (exn + DownloadResult) \<times> event list" where
  "download_document e uri options =
     (let result = \<lparr>akn_uri = uri, status = ''error'', timestamp = now e,
                    files = [], error = None\<rparr>
      in case parse_akn_uri (lib e) uri of
           Inl ex \<Rightarrow> (Inl ex, [])
         | Inr None \<Rightarrow> (Inr (result\<lparr>error := Some (''Failed to parse URI: '' @ uri)\<rparr>), [])
         | Inr (Some info) \<Rightarrow>
             (let doc_dir = joinpath (output_dir options) (folder_path info);
                  xml_path = joinpath doc_dir (parse_part ''main.xml'')
              in if path_exists e (str_path xml_path) \<and> \<not> force options then
                   (Inr (result\<lparr>status := ''skipped'', files := [str_path xml_path]\<rparr>), [])
                 else if dry_run options then
                   (Inr (result\<lparr>status := ''dry-run''\<rparr>), [])
                 else
                   (case mkdir_error e (str_path doc_dir) of
                      Some ex \<Rightarrow> (Inl ex, [Mkdir (str_path doc_dir)])
                    | None \<Rightarrow>
                        fetch_xml e result options info doc_dir xml_path
                          [Mkdir (str_path doc_dir)])))"

section \<open>The domains of the properties\<close>

text \<open>
  A coordinate field is a token: a non-empty string without \<open>/\<close>. The coordinates are
  valid when every field is a token and the authority is present exactly for the
  document type \<open>authority-regulation\<close>; for the API path the category is moreover one
  of the three known ones and the year is a non-empty string of digits.
\<close>

definition token :: "string \<Rightarrow> bool" where
  "token s = (s \<noteq> [] \<and> CHR ''/'' \<notin> set s)"

definition digits_only :: "string \<Rightarrow> bool" where
  "digits_only s = (s \<noteq> [] \<and> list_all is_digit s)"

definition fields :: "DocumentInfo \<Rightarrow> string list" where
  "fields info =
     [category info, document_type info, year info, number info, lang_and_version info]
     @ (case authority info of None \<Rightarrow> [] | Some a \<Rightarrow> [a])"

definition valid_coords :: "DocumentInfo \<Rightarrow> bool" where
  "valid_coords info =
     (list_all token (fields info)
      \<and> (authority info \<noteq> None \<longleftrightarrow> document_type info = ''authority-regulation''))"

definition valid_api_coords :: "DocumentInfo \<Rightarrow> bool" where
  "valid_api_coords info =
     (category info \<in> {''act'', ''judgment'', ''doc''} \<and> digits_only (year info)
      \<and> valid_coords info)"

text \<open>
  A percent escape is a \<open>%\<close> followed by two hexadecimal digits: \<open>escape_at s\<close> when
  \<open>s\<close> starts with one, \<open>has_escape s\<close> when one occurs in \<open>s\<close>.
\<close>

definition escape_at :: "string \<Rightarrow> bool" where
  "escape_at s = (case s of c # a # b # rest \<Rightarrow> c = CHR ''%'' \<and> is_hexdig a \<and> is_hexdig b
                   | _ \<Rightarrow> False)"

fun has_escape :: "string \<Rightarrow> bool" where
  "has_escape [] = False"
| "has_escape (c # cs) =
     (c = CHR ''%'' \<and> (case cs of a # b # rest \<Rightarrow> is_hexdig a \<and> is_hexdig b | _ \<Rightarrow> False)
      \<or> has_escape cs)"

text \<open>
  The two path grammars in words of their own: the strings
  \<open>/akn/fi/doc/authority-regulation/{authority}/{year}/{number}/{lang}\<close> and
  \<open>/akn/fi/{category}/{type}/{year}/{number}/{lang}\<close>.
\<close>

definition authority_grammar :: "string \<Rightarrow> bool" where
  "authority_grammar p =
     (\<exists>a y n l. token a \<and> digits_only y \<and> token n \<and> token l
        \<and> p = ''/akn/fi/doc/authority-regulation/'' @ a @ ''/'' @ y @ ''/'' @ n @ ''/'' @ l)"

definition standard_grammar :: "string \<Rightarrow> bool" where
  "standard_grammar p =
     (\<exists>c t y n l. c \<in> {''act'', ''judgment'', ''doc''} \<and> token t \<and> digits_only y
        \<and> token n \<and> token l
        \<and> p = ''/akn/fi/'' @ c @ ''/'' @ t @ ''/'' @ y @ ''/'' @ n @ ''/'' @ l)"

text \<open>
  A library to run examples with: the codec is never reached on ASCII input, and
  no bracketed host is rejected.
\<close>

definition plain_lib :: pylib where
  "plain_lib = \<lparr>utf8_replace = (\<lambda>bs. bs), check_bracketed_host = (\<lambda>h. None)\<rparr>"

text \<open>
  The request that \<open>list_documents\<close> sends for a page, a query parameter of a request,
  and the item that the generator yields for a JSON object.
\<close>

definition list_request :: "ListConfig \<Rightarrow> int \<Rightarrow> request" where
  "list_request config page =
     client_request (build_list_path (cfg_category config) (cfg_document_type config))
       (Some (list_params config page)) ''application/json''"

definition request_param :: "request \<Rightarrow> string \<Rightarrow> json option" where
  "request_param r k = (case params r of None \<Rightarrow> None | Some ps \<Rightarrow> map_of ps k)"

fun is_object :: "json \<Rightarrow> bool" where
  "is_object (JObj kvs) = True"
| "is_object v = False"

fun item_of :: "json \<Rightarrow> ListItem" where
  "item_of (JObj kvs) =
     \<lparr>item_akn_uri = dict_get kvs ''akn_uri'' (JStr []),
      item_status = dict_get kvs ''status'' (JStr [])\<rparr>"
| "item_of v = \<lparr>item_akn_uri = JNull, item_status = JNull\<rparr>"

text \<open>A session that answers every request with status 404.\<close>

definition session_404 :: session where
  "session_404 r = Inr \<lparr>status_code = 404, content = [], json_of = None\<rparr>"

text \<open>
  A session that serves three list pages of 10, 10 and 3 objects for the configuration
  it is given, and fails on any other request.
\<close>

definition three_pages :: "ListConfig \<Rightarrow> session" where
  "three_pages config r =
     (let obj = JObj [(''akn_uri'', JStr ''u''), (''status'', JStr ''NEW'')]
      in if r = list_request config 1 \<or> r = list_request config 2
         then Inr \<lparr>status_code = 200, content = [], json_of = Some (JArr (replicate 10 obj))\<rparr>
         else if r = list_request config 3
         then Inr \<lparr>status_code = 200, content = [], json_of = Some (JArr (replicate 3 obj))\<rparr>
         else Inl (OtherError ''connection refused''))"

text \<open>The uris that a history marks as completed.\<close>

fun marked_by :: "save_io \<times> call \<Rightarrow> string list" where
  "marked_by (io, MarkCompleted uri) = [uri]"
| "marked_by (io, c) = []"

definition marked :: "(save_io \<times> call) list \<Rightarrow> string set" where
  "marked cs = set (concat (map marked_by cs))"

text \<open>An order for the one set \<open>{u1, u2}\<close> of the example below.\<close>

definition example_order :: "json set \<Rightarrow> json list" where
  "example_order S = (if S = {JStr ''u1'', JStr ''u2''} then [JStr ''u2'', JStr ''u1''] else [])"

text \<open>
  \<open>inside e t\<close>: the element \<open>e\<close> is \<open>t\<close> or lies below it. A value is a media reference
  of a document when it is the \<open>src\<close> of an \<open>img\<close> element, the \<open>href\<close> of a \<open>ref\<close>
  element, or the \<open>href\<close> of an \<open>attachment\<close> element or of an element below one
  (element names in the Akoma Ntoso namespace, attribute names in none).
\<close>

fun inside :: "xml \<Rightarrow> xml \<Rightarrow> bool" where
  "inside e (Element t a cs) = (e = Element t a cs \<or> (\<exists>c \<in> set cs. inside e c))"

definition has_attr :: "xml \<Rightarrow> string \<Rightarrow> string \<Rightarrow> bool" where
  "has_attr e name v = ((([], name), v) \<in> set (attrs e))"

definition media_reference :: "xml \<Rightarrow> string \<Rightarrow> bool" where
  "media_reference t v =
     (\<exists>e. inside e t \<and>
        (tag e = (AKN_NS, ''img'') \<and> has_attr e ''src'' v
         \<or> tag e = (AKN_NS, ''ref'') \<and> has_attr e ''href'' v
         \<or> has_attr e ''href'' v
            \<and> (\<exists>a. inside a t \<and> tag a = (AKN_NS, ''attachment'') \<and> inside e a)))"

text \<open>
  A document with an image, a foreign image, a reference to the same image and an
  attachment, and a parser that knows this document only.
\<close>

definition example_doc :: xml where
  "example_doc =
     Element (AKN_NS, ''akomaNtoso'') []
       [Element (AKN_NS, ''act'') []
          [Element (AKN_NS, ''body'') []
             [Element (AKN_NS, ''img'') [(([], ''src''), ''media/image1.gif'')] [],
              Element (AKN_NS, ''img'') [(([], ''src''), ''http://example.com/image.gif'')] [],
              Element (AKN_NS, ''ref'') [(([], ''href''), ''media/image1.gif'')] []],
           Element (AKN_NS, ''attachments'') []
             [Element (AKN_NS, ''attachment'') [(([], ''href''), ''media/attachment1.pdf'')] []]]]"

definition example_parser :: "string \<Rightarrow> exn + xml" where
  "example_parser bs =
     (if bs = ''<akomaNtoso/>'' then Inr example_doc else Inl (OtherError ''XMLSyntaxError''))"

text \<open>The directory of a document, its primary file and its media directory.\<close>

definition doc_dir_of :: "DownloadOptions \<Rightarrow> DocumentInfo \<Rightarrow> path" where
  "doc_dir_of options info = joinpath (output_dir options) (folder_path info)"

definition xml_path_of :: "DownloadOptions \<Rightarrow> DocumentInfo \<Rightarrow> string" where
  "xml_path_of options info =
     str_path (joinpath (doc_dir_of options info) (parse_part ''main.xml''))"

definition media_dir_of :: "DownloadOptions \<Rightarrow> DocumentInfo \<Rightarrow> string" where
  "media_dir_of options info =
     str_path (joinpath (doc_dir_of options info) (parse_part ''media''))"

text \<open>
  An environment for the examples: every request is answered with status 200 and the
  body \<open><akomaNtoso/>\<close>, except those for a PDF, which fail; \<open>main.xml\<close> of statute
  123 of 2024 may exist under \<open>/out\<close>; a write may fail.
\<close>

definition example_session :: session where
  "example_session r =
     (if accept r = ''application/pdf'' then Inl (OtherError ''timeout'')
      else Inr \<lparr>status_code = 200, content = ''<akomaNtoso/>'', json_of = None\<rparr>)"

definition example_env :: "bool \<Rightarrow> exn option \<Rightarrow> env" where
  "example_env present werr =
     \<lparr>lib = plain_lib, now = ''2024-01-01T00:00:00'', http = example_session,
      path_exists = (\<lambda>p. present \<and> p = ''/out/act/statute/2024/123/fin@/main.xml''),
      mkdir_error = (\<lambda>p. None),
      write_error = (\<lambda>p bs. if p = ''/out/act/statute/2024/123/fin@/main.xml'' then werr
                             else None),
      fromstring = example_parser,
      set_order = (\<lambda>S. if S = {''media/image1.gif'', ''media/attachment1.pdf''}
                        then [''media/attachment1.pdf'', ''media/image1.gif''] else [])\<rparr>"

definition example_options :: "bool \<Rightarrow> DownloadOptions" where
  "example_options dry =
     \<lparr>output_dir = PurePath [''/out''], fetch_pdf = True, fetch_zip = True,
      fetch_media = True, force = False, dry_run = dry\<rparr>"

section \<open>Properties of urls.py\<close>

subsection \<open>Matching a built path\<close>

lemma takeWhile_stop:
  "\<forall>x \<in> set t. P x \<Longrightarrow> \<not> P c \<Longrightarrow> takeWhile P (t @ c # rest) = t"
  by (induction t) auto

lemma dropWhile_stop:
  "\<forall>x \<in> set t. P x \<Longrightarrow> \<not> P c \<Longrightarrow> dropWhile P (t @ c # rest) = c # rest"
  by (induction t) auto

lemma takeWhile_all: "\<forall>x \<in> set t. P x \<Longrightarrow> takeWhile P t = t"
  by (induction t) auto

lemma dropWhile_all: "\<forall>x \<in> set t. P x \<Longrightarrow> dropWhile P t = []"
  by (induction t) auto

lemma re_plus_upto:
  "t \<noteq> [] \<Longrightarrow> list_all P t \<Longrightarrow> \<not> P c \<Longrightarrow> re_plus P (t @ c # rest) = Some (t, c # rest)"
  by (simp add: re_plus_def list_all_iff takeWhile_stop dropWhile_stop)

lemma re_plus_all:
  "t \<noteq> [] \<Longrightarrow> list_all P t \<Longrightarrow> re_plus P t = Some (t, [])"
  by (simp add: re_plus_def list_all_iff takeWhile_all dropWhile_all)

lemma token_not_slash: "token t \<Longrightarrow> t \<noteq> [] \<and> list_all not_slash t"
  by (auto simp: token_def not_slash_def list_all_iff)

lemma slash_in_no_class: "\<not> is_digit CHR ''/''" "\<not> not_slash CHR ''/''"
  by (simp_all add: is_digit_def not_slash_def)

lemma re_lit_slash: "re_lit ''/'' (CHR ''/'' # s) = Some s"
  by (simp add: re_lit_def)

text \<open>The last three groups, which both patterns share.\<close>

lemma tail_match:
  assumes "digits_only y" "token n" "token l"
  shows "do { (yr, r5) \<leftarrow> re_plus is_digit (y @ ''/'' @ n @ ''/'' @ l);
              r6 \<leftarrow> re_lit ''/'' r5;
              (num, r7) \<leftarrow> re_plus not_slash r6;
              r8 \<leftarrow> re_lit ''/'' r7;
              (lang, r9) \<leftarrow> re_plus not_slash r8;
              if r9 = [] then Some (f yr num lang) else None } = Some (f y n l)"
  using assms
  by (simp add: digits_only_def re_plus_upto re_plus_all token_not_slash slash_in_no_class
      re_lit_slash)

lemma STANDARD_PATTERN_build:
  assumes "c \<in> {''act'', ''judgment'', ''doc''}" "token ty" "digits_only y" "token n" "token l"
  shows "STANDARD_PATTERN (''/akn/fi/'' @ c @ ''/'' @ ty @ ''/'' @ y @ ''/'' @ n @ ''/'' @ l)
           = Some (c, ty, y, n, l)"
proof -
  have lit: "re_lit ''/akn/fi/'' (''/akn/fi/'' @ c @ ''/'' @ ty @ ''/'' @ y @ ''/'' @ n @ ''/'' @ l)
     = Some (c @ ''/'' @ ty @ ''/'' @ y @ ''/'' @ n @ ''/'' @ l)"
    by (simp add: re_lit_def)
  have cat: "re_category (c @ CHR ''/'' # rest) = Some (c, CHR ''/'' # rest)" for rest
    using assms(1) by (auto simp: re_category_def)
  have ty: "re_plus not_slash (ty @ CHR ''/'' # rest) = Some (ty, CHR ''/'' # rest)" for rest
    using assms(2) by (simp add: re_plus_upto token_not_slash slash_in_no_class)
  show ?thesis
    unfolding STANDARD_PATTERN_def lit
    using tail_match[OF assms(3,4,5), of "\<lambda>yr num lang. (c, ty, yr, num, lang)"]
    by (simp add: cat ty re_lit_slash)
qed

lemma AUTHORITY_PATTERN_build:
  assumes "token a" "digits_only y" "token n" "token l"
  shows "AUTHORITY_PATTERN (''/akn/fi/'' @ ''doc'' @ ''/'' @ ''authority-regulation'' @ ''/''
            @ a @ ''/'' @ y @ ''/'' @ n @ ''/'' @ l) = Some (a, y, n, l)"
proof -
  have lit: "re_lit ''/akn/fi/doc/authority-regulation/''
      (''/akn/fi/'' @ ''doc'' @ ''/'' @ ''authority-regulation'' @ ''/''
         @ a @ ''/'' @ y @ ''/'' @ n @ ''/'' @ l)
     = Some (a @ ''/'' @ y @ ''/'' @ n @ ''/'' @ l)"
    by (simp add: re_lit_def)
  have au: "re_plus not_slash (a @ CHR ''/'' # rest) = Some (a, CHR ''/'' # rest)" for rest
    using assms(1) by (simp add: re_plus_upto token_not_slash slash_in_no_class)
  show ?thesis
    unfolding AUTHORITY_PATTERN_def lit
    using tail_match[OF assms(2,3,4), of "\<lambda>yr num lang. (a, yr, num, lang)"]
    by (simp add: au re_lit_slash)
qed

lemma prefix_token_eq:
  assumes "token t" "CHR ''/'' \<notin> set x" "prefix (x @ ''/'') (t @ ''/'' @ rest)"
  shows "t = x"
proof -
  from assms(3) obtain zs where eq: "t @ ''/'' @ rest = x @ ''/'' @ zs"
    by (auto simp: prefix_def)
  have "takeWhile (\<lambda>c. c \<noteq> CHR ''/'') (t @ ''/'' @ rest) = t"
    using assms(1) by (auto simp: token_def intro!: takeWhile_stop)
  moreover have "takeWhile (\<lambda>c. c \<noteq> CHR ''/'') (x @ ''/'' @ zs) = x"
    using assms(2) by (auto intro!: takeWhile_stop)
  ultimately show ?thesis using eq by simp
qed

lemma AUTHORITY_PATTERN_standard_None:
  assumes "c \<in> {''act'', ''judgment'', ''doc''}" "token ty" "ty \<noteq> ''authority-regulation''"
  shows "AUTHORITY_PATTERN (''/akn/fi/'' @ c @ ''/'' @ ty @ ''/'' @ rest) = None"
proof -
  have "\<not> prefix ''/akn/fi/doc/authority-regulation/''
            (''/akn/fi/'' @ c @ ''/'' @ ty @ ''/'' @ rest)"
  proof
    assume "prefix ''/akn/fi/doc/authority-regulation/''
              (''/akn/fi/'' @ c @ ''/'' @ ty @ ''/'' @ rest)"
    then have "prefix ''doc/authority-regulation/'' (c @ ''/'' @ ty @ ''/'' @ rest)"
      by simp
    with assms(1) have "prefix (''authority-regulation'' @ ''/'') (ty @ ''/'' @ rest)"
      by auto
    from prefix_token_eq[OF assms(2) _ this] assms(3) show False by simp
  qed
  then show ?thesis by (simp add: AUTHORITY_PATTERN_def re_lit_def)
qed

subsection \<open>Strings without a percent escape\<close>

lemma has_escape_Cons: "has_escape (c # cs) \<longleftrightarrow> escape_at (c # cs) \<or> has_escape cs"
  by (cases cs; cases "tl cs"; simp add: escape_at_def)

lemma unquote_to_bytes_step:
  "\<not> escape_at (c # cs) \<Longrightarrow> unquote_to_bytes (c # cs) = c # unquote_to_bytes cs"
  by (subst unquote_to_bytes.simps(2))
     (auto simp del: unquote_to_bytes.simps simp: escape_at_def split: list.splits)

lemma unquote_to_bytes_no_escape: "\<not> has_escape s \<Longrightarrow> unquote_to_bytes s = s"
proof (induction s)
  case Nil
  then show ?case by simp
next
  case (Cons c cs)
  from Cons.prems have e: "\<not> escape_at (c # cs)" and h: "\<not> has_escape cs"
    using has_escape_Cons[of c cs] by blast+
  from unquote_to_bytes_step[OF e] Cons.IH[OF h] show ?case
    by (simp only:)
qed

lemma escape_at_append: "escape_at xs \<Longrightarrow> escape_at (xs @ ys)"
  by (cases xs; cases "tl xs"; cases "tl (tl xs)"; simp add: escape_at_def)

lemma has_escape_append_left: "has_escape xs \<Longrightarrow> has_escape (xs @ ys)"
proof (induction xs)
  case Nil
  then show ?case by simp
next
  case (Cons c cs)
  from Cons.prems have "escape_at (c # cs) \<or> has_escape cs"
    by (simp only: has_escape_Cons)
  then have "escape_at ((c # cs) @ ys) \<or> has_escape (cs @ ys)"
    using Cons.IH escape_at_append by blast
  then show ?case
    by (simp only: append_Cons has_escape_Cons)
qed

lemma has_escape_append_right: "has_escape ys \<Longrightarrow> has_escape (xs @ ys)"
proof (induction xs)
  case Nil
  then show ?case by simp
next
  case (Cons c cs)
  then show ?case by (simp only: append_Cons has_escape_Cons) blast
qed

lemma concat_ascii_runs: "concat (ascii_runs s) = s"
  by (induction s) (auto split: list.splits)

lemma has_escape_run:
  assumes "r \<in> set (ascii_runs s)" "has_escape r"
  shows "has_escape s"
proof -
  from assms(1) obtain pre post where "ascii_runs s = pre @ r # post"
    by (auto dest: split_list)
  then have "concat (ascii_runs s) = concat pre @ r @ concat post"
    by simp
  then have "s = concat pre @ (r @ concat post)"
    by (simp add: concat_ascii_runs)
  with assms(2) show ?thesis
    by (metis has_escape_append_left has_escape_append_right)
qed

lemma unquote_no_escape:
  assumes "\<not> has_escape s"
  shows "unquote pl s = s"
proof -
  have "(if list_all is_ascii r then decode_utf8 pl (unquote_to_bytes r) else r) = r"
    if "r \<in> set (ascii_runs s)" for r
  proof -
    from that assms have "\<not> has_escape r"
      using has_escape_run by blast
    then show ?thesis
      by (simp add: unquote_to_bytes_no_escape decode_utf8_def)
  qed
  then have "map (\<lambda>r. if list_all is_ascii r then decode_utf8 pl (unquote_to_bytes r) else r)
               (ascii_runs s) = ascii_runs s"
    by (simp add: map_idI)
  then show ?thesis
    by (simp add: unquote_def concat_ascii_runs)
qed

lemma escape_at_slash:
  "escape_at (a @ CHR ''/'' # b) \<longleftrightarrow> escape_at a"
  by (cases a; cases "tl a"; cases "tl (tl a)"; cases b; cases "tl b";
      simp add: escape_at_def is_hexdig_def)

lemma has_escape_slash:
  "has_escape (a @ CHR ''/'' # b) \<longleftrightarrow> has_escape a \<or> has_escape b"
proof (induction a)
  case Nil
  have "\<not> escape_at (CHR ''/'' # b)"
    by (cases b; cases "tl b"; simp add: escape_at_def)
  then show ?case by (simp only: append_Nil has_escape_Cons has_escape.simps)
next
  case (Cons c cs)
  have "escape_at ((c # cs) @ CHR ''/'' # b) \<longleftrightarrow> escape_at (c # cs)"
    by (rule escape_at_slash)
  with Cons.IH show ?case
    by (simp only: append_Cons has_escape_Cons) blast
qed

subsection \<open>Round trip through the API path\<close>

text \<open>
  C2, as amended. For valid coordinates whose fields hold no percent escape, and
  whose category is \<open>doc\<close> when the document type is \<open>authority-regulation\<close>, parsing
  the API path built from the coordinates returns the same coordinates.
\<close>

theorem parse_build_api_path_roundtrip:
  assumes v: "valid_api_coords info"
    and d: "document_type info = ''authority-regulation'' \<longrightarrow> category info = ''doc''"
    and p: "\<forall>f \<in> set (fields info). \<not> has_escape f"
  shows "parse_akn_uri pl (build_api_path info) = Inr (Some info)"
proof (cases "authority info")
  case None
  from v None have tok: "token (document_type info)" "token (number info)"
      "token (lang_and_version info)"
    and cat: "category info \<in> {''act'', ''judgment'', ''doc''}"
    and yr: "digits_only (year info)"
    and nt: "document_type info \<noteq> ''authority-regulation''"
    by (auto simp: valid_api_coords_def valid_coords_def fields_def)
  have b: "build_api_path info = ''/akn/fi/'' @ category info @ ''/'' @ document_type info
      @ ''/'' @ year info @ ''/'' @ number info @ ''/'' @ lang_and_version info"
    using None by (simp add: build_api_path_def)
  have np: "\<not> has_escape (build_api_path info)"
    using p None unfolding b by (simp add: fields_def has_escape_slash)
  have nh: "\<not> prefix ''http'' (build_api_path info)"
    unfolding b by simp
  have "match_akn_path (build_api_path info) = Some info"
    unfolding b match_akn_path_def
    using AUTHORITY_PATTERN_standard_None[OF cat tok(1) nt]
      STANDARD_PATTERN_build[OF cat tok(1) yr tok(2,3)] None
    by simp
  then show ?thesis
    using nh np by (simp add: parse_akn_uri_def unquote_no_escape)
next
  case (Some a)
  from v Some have tok: "token a" "token (number info)" "token (lang_and_version info)"
    and yr: "digits_only (year info)"
    and ty: "document_type info = ''authority-regulation''"
    by (auto simp: valid_api_coords_def valid_coords_def fields_def)
  from d ty have cat: "category info = ''doc''" by simp
  have b: "build_api_path info = ''/akn/fi/'' @ ''doc'' @ ''/'' @ ''authority-regulation''
      @ ''/'' @ a @ ''/'' @ year info @ ''/'' @ number info @ ''/'' @ lang_and_version info"
    using Some tok(1) cat ty by (simp add: build_api_path_def token_def)
  have np: "\<not> has_escape (build_api_path info)"
    using p Some unfolding b by (simp add: fields_def has_escape_slash)
  have nh: "\<not> prefix ''http'' (build_api_path info)"
    unfolding b by simp
  have "match_akn_path (build_api_path info) = Some info"
    unfolding b match_akn_path_def
    using AUTHORITY_PATTERN_build[OF tok(1) yr tok(2,3)] Some cat ty
    by simp
  then show ?thesis
    using nh np by (simp add: parse_akn_uri_def unquote_no_escape)
qed

theorem parse_build_api_path_roundtrip_witness:
  "valid_api_coords \<lparr>category = ''doc'', document_type = ''authority-regulation'',
       year = ''1996'', number = ''32082'', lang_and_version = ''fin@'',
       authority = Some ''metsahallitus''\<rparr>
   \<and> parse_akn_uri plain_lib
       (build_api_path \<lparr>category = ''doc'', document_type = ''authority-regulation'',
          year = ''1996'', number = ''32082'', lang_and_version = ''fin@'',
          authority = Some ''metsahallitus''\<rparr>)
     = Inr (Some \<lparr>category = ''doc'', document_type = ''authority-regulation'',
          year = ''1996'', number = ''32082'', lang_and_version = ''fin@'',
          authority = Some ''metsahallitus''\<rparr>)"
  using parse_build_api_path_roundtrip
    [of "\<lparr>category = ''doc'', document_type = ''authority-regulation'',
          year = ''1996'', number = ''32082'', lang_and_version = ''fin@'',
          authority = Some ''metsahallitus''\<rparr>" plain_lib]
  by (simp add: valid_api_coords_def valid_coords_def fields_def token_def digits_only_def
      is_digit_def)

text \<open>
  C2 as stated fails twice. A field with a percent escape is decoded on the way back:
  \<open>fin%40\<close> returns as \<open>fin@\<close>. And the authority pattern knows the category \<open>doc\<close>
  only: valid coordinates of category \<open>act\<close> with an authority do not parse at all.
\<close>

theorem parse_build_api_path_counterexample:
  "valid_api_coords \<lparr>category = ''act'', document_type = ''statute'', year = ''2024'',
       number = ''123'', lang_and_version = ''fin%40'', authority = None\<rparr>
   \<and> parse_akn_uri plain_lib
       (build_api_path \<lparr>category = ''act'', document_type = ''statute'', year = ''2024'',
          number = ''123'', lang_and_version = ''fin%40'', authority = None\<rparr>)
     = Inr (Some \<lparr>category = ''act'', document_type = ''statute'', year = ''2024'',
          number = ''123'', lang_and_version = ''fin@'', authority = None\<rparr>)
   \<and> valid_api_coords \<lparr>category = ''act'', document_type = ''authority-regulation'',
       year = ''2024'', number = ''1'', lang_and_version = ''fin@'', authority = Some ''x''\<rparr>
   \<and> parse_akn_uri plain_lib
       (build_api_path \<lparr>category = ''act'', document_type = ''authority-regulation'',
          year = ''2024'', number = ''1'', lang_and_version = ''fin@'',
          authority = Some ''x''\<rparr>)
     = Inr None"
  by code_simp

subsection \<open>Storage paths\<close>

lemma split_from_no_sep:
  "CHR ''/'' \<notin> set s \<Longrightarrow> split_from ''/'' 0 cur s = [rev cur @ s]"
  by (induction s arbitrary: cur) auto

lemma parse_part_token:
  "token s \<Longrightarrow> s \<noteq> ''.'' \<Longrightarrow> parse_part s = Path [] [s]"
  by (cases s) (auto simp: token_def parse_part_def str_split_def split_from_no_sep)

lemma PurePath_tokens:
  assumes "\<forall>s \<in> set ss. token s \<and> s \<noteq> ''.''"
  shows "PurePath ss = Path [] ss"
proof -
  have "\<forall>s \<in> set ss. token s \<and> s \<noteq> ''.'' \<Longrightarrow>
        foldl joinpath (Path [] acc) (map parse_part ss) = Path [] (acc @ ss)" for acc
    by (induction ss arbitrary: acc) (auto simp: parse_part_token joinpath_def)
  from this[of "[]"] assms show ?thesis
    by (simp add: PurePath_def)
qed

lemma folder_path_valid:
  assumes "valid_coords a" "\<forall>f \<in> set (fields a). f \<noteq> ''.''"
  shows "folder_path a = Path []
     ([category a, document_type a] @ (case authority a of None \<Rightarrow> [] | Some x \<Rightarrow> [x])
       @ [year a, number a, lang_and_version a])"
proof (cases "authority a")
  case None
  from assms(1) have "list_all token (fields a)"
    by (simp add: valid_coords_def)
  with assms(2) None
  have "\<forall>s \<in> set [category a, document_type a, year a, number a, lang_and_version a].
          token s \<and> s \<noteq> ''.''"
    by (simp add: fields_def)
  from PurePath_tokens[OF this] None show ?thesis
    by (simp add: folder_path_def)
next
  case (Some x)
  from assms(1) have "list_all token (fields a)"
    by (simp add: valid_coords_def)
  with assms(2) Some
  have t: "\<forall>s \<in> set [category a, document_type a, x, year a, number a, lang_and_version a].
          token s \<and> s \<noteq> ''.''"
    by (simp add: fields_def)
  then have "truthy_str (authority a)"
    using Some by (simp add: token_def)
  with PurePath_tokens[OF t] Some show ?thesis
    by (simp add: folder_path_def)
qed

text \<open>
  C9, as amended. Two distinct valid coordinate tuples, none of whose fields is the
  single dot \<open>.\<close>, have distinct storage paths.
\<close>

theorem folder_path_injective:
  assumes "valid_coords a" "valid_coords b"
    and "\<forall>f \<in> set (fields a @ fields b). f \<noteq> ''.''"
    and "a \<noteq> b"
  shows "folder_path a \<noteq> folder_path b"
proof
  assume eq: "folder_path a = folder_path b"
  have da: "\<forall>f \<in> set (fields a). f \<noteq> ''.''" and db: "\<forall>f \<in> set (fields b). f \<noteq> ''.''"
    using assms(3) by auto
  from eq folder_path_valid[OF assms(1) da] folder_path_valid[OF assms(2) db]
  have "category a = category b \<and> document_type a = document_type b \<and> year a = year b
        \<and> number a = number b \<and> lang_and_version a = lang_and_version b
        \<and> authority a = authority b"
    by (auto split: option.splits)
  then have "a = b" by simp
  with assms(4) show False by simp
qed

theorem folder_path_injective_witness:
  "valid_coords \<lparr>category = ''act'', document_type = ''statute'', year = ''2024'',
       number = ''123'', lang_and_version = ''fin@'', authority = None\<rparr>
   \<and> valid_coords \<lparr>category = ''doc'', document_type = ''authority-regulation'',
       year = ''2024'', number = ''123'', lang_and_version = ''fin@'',
       authority = Some ''statute''\<rparr>
   \<and> folder_path \<lparr>category = ''act'', document_type = ''statute'', year = ''2024'',
       number = ''123'', lang_and_version = ''fin@'', authority = None\<rparr>
     \<noteq> folder_path \<lparr>category = ''doc'', document_type = ''authority-regulation'',
       year = ''2024'', number = ''123'', lang_and_version = ''fin@'',
       authority = Some ''statute''\<rparr>"
  using folder_path_injective
    [of "\<lparr>category = ''act'', document_type = ''statute'', year = ''2024'',
       number = ''123'', lang_and_version = ''fin@'', authority = None\<rparr>"
      "\<lparr>category = ''doc'', document_type = ''authority-regulation'',
       year = ''2024'', number = ''123'', lang_and_version = ''fin@'',
       authority = Some ''statute''\<rparr>"]
  by (simp add: valid_coords_def fields_def token_def)

text \<open>
  C9 as stated fails: \<open>pathlib\<close> drops a path segment that is a single dot, so a
  document number \<open>.\<close> and a language \<open>.\<close> leave the same four segments behind.
\<close>

theorem folder_path_counterexample:
  "valid_coords \<lparr>category = ''act'', document_type = ''statute'', year = ''2024'',
       number = ''.'', lang_and_version = ''fin@'', authority = None\<rparr>
   \<and> valid_coords \<lparr>category = ''act'', document_type = ''statute'', year = ''2024'',
       number = ''fin@'', lang_and_version = ''.'', authority = None\<rparr>
   \<and> \<lparr>category = ''act'', document_type = ''statute'', year = ''2024'',
       number = ''.'', lang_and_version = ''fin@'', authority = None\<rparr>
     \<noteq> \<lparr>category = ''act'', document_type = ''statute'', year = ''2024'',
       number = ''fin@'', lang_and_version = ''.'', authority = None\<rparr>
   \<and> folder_path \<lparr>category = ''act'', document_type = ''statute'', year = ''2024'',
       number = ''.'', lang_and_version = ''fin@'', authority = None\<rparr>
     = folder_path \<lparr>category = ''act'', document_type = ''statute'', year = ''2024'',
       number = ''fin@'', lang_and_version = ''.'', authority = None\<rparr>"
  by code_simp

subsection \<open>Unparseable input\<close>

text \<open>
  A pattern that matches puts its input into the grammar it stands for. So an input
  that does not start with \<open>http\<close>, and whose decoded form is in neither grammar,
  resolves to \<open>None\<close>; the empty string and a path with a segment missing are such
  inputs.
\<close>

lemma re_lit_SomeD: "re_lit l s = Some r \<Longrightarrow> s = l @ r"
  by (auto simp: re_lit_def prefix_def split: if_splits)

lemma re_plus_SomeD:
  "re_plus P s = Some (t, r) \<Longrightarrow> s = t @ r \<and> t \<noteq> [] \<and> list_all P t"
  by (auto simp: re_plus_def list_all_iff split: if_splits dest: set_takeWhileD)

lemma re_category_SomeD:
  "re_category s = Some (c, r) \<Longrightarrow> s = c @ r \<and> c \<in> {''act'', ''judgment'', ''doc''}"
  by (auto simp: re_category_def prefix_def split: if_splits)

lemma not_slash_token: "t \<noteq> [] \<Longrightarrow> list_all not_slash t \<Longrightarrow> token t"
  by (auto simp: token_def not_slash_def list_all_iff)

lemma AUTHORITY_PATTERN_SomeD:
  assumes "AUTHORITY_PATTERN p = Some g"
  shows "authority_grammar p"
proof -
  from assms obtain r0 a r1 r2 y r3 r4 n r5 r6 l r7 where
    s: "re_lit ''/akn/fi/doc/authority-regulation/'' p = Some r0"
       "re_plus not_slash r0 = Some (a, r1)" "re_lit ''/'' r1 = Some r2"
       "re_plus is_digit r2 = Some (y, r3)" "re_lit ''/'' r3 = Some r4"
       "re_plus not_slash r4 = Some (n, r5)" "re_lit ''/'' r5 = Some r6"
       "re_plus not_slash r6 = Some (l, r7)" "r7 = []"
    unfolding AUTHORITY_PATTERN_def
    by (auto simp: bind_eq_Some_conv split: if_splits)
  from s(1,3,5,7)[THEN re_lit_SomeD] s(2,4,6,8)[THEN re_plus_SomeD] s(9)
  show ?thesis
    unfolding authority_grammar_def
    by (intro exI[of _ a] exI[of _ y] exI[of _ n] exI[of _ l])
       (simp add: not_slash_token digits_only_def)
qed

lemma STANDARD_PATTERN_SomeD:
  assumes "STANDARD_PATTERN p = Some g"
  shows "standard_grammar p"
proof -
  from assms obtain r0 c r1 r2 t r3 r4 y r5 r6 n r7 r8 l r9 where
    s: "re_lit ''/akn/fi/'' p = Some r0" "re_lit ''/'' r1 = Some r2"
       "re_lit ''/'' r3 = Some r4" "re_lit ''/'' r5 = Some r6" "re_lit ''/'' r7 = Some r8"
    and u: "re_plus not_slash r2 = Some (t, r3)" "re_plus is_digit r4 = Some (y, r5)"
       "re_plus not_slash r6 = Some (n, r7)" "re_plus not_slash r8 = Some (l, r9)"
    and c: "re_category r0 = Some (c, r1)" and e: "r9 = []"
    unfolding STANDARD_PATTERN_def
    by (auto simp: bind_eq_Some_conv split: if_splits)
  from s[THEN re_lit_SomeD] u[THEN re_plus_SomeD] c[THEN re_category_SomeD] e
  show ?thesis
    unfolding standard_grammar_def
    by (intro exI[of _ c] exI[of _ t] exI[of _ y] exI[of _ n] exI[of _ l])
       (simp add: not_slash_token digits_only_def)
qed

lemma match_akn_path_None:
  assumes "\<not> authority_grammar p" "\<not> standard_grammar p"
  shows "match_akn_path p = None"
proof -
  from assms have "AUTHORITY_PATTERN p = None" "STANDARD_PATTERN p = None"
    using AUTHORITY_PATTERN_SomeD STANDARD_PATTERN_SomeD by (metis option.exhaust)+
  then show ?thesis by (simp add: match_akn_path_def)
qed

lemma parse_akn_uri_bare_None:
  assumes "\<not> prefix ''http'' uri"
    and "\<not> authority_grammar (unquote pl uri)" "\<not> standard_grammar (unquote pl uri)"
  shows "parse_akn_uri pl uri = Inr None"
  using assms by (simp add: parse_akn_uri_def match_akn_path_None)

lemma parse_akn_uri_empty: "parse_akn_uri pl [] = Inr None"
  by (simp add: parse_akn_uri_def unquote_def match_akn_path_def AUTHORITY_PATTERN_def
      STANDARD_PATTERN_def re_lit_def)

lemma parse_akn_uri_missing_segment:
  "parse_akn_uri pl ''/akn/fi/act/statute/2024/fin@'' = Inr None"
  by code_simp

text \<open>
  C8 asks that the resolver never raises. For an input that starts with \<open>http\<close> the
  path comes from \<open>urlparse\<close>, which raises \<open>ValueError\<close> on a network location with
  one bracket only, and \<open>parse_akn_uri\<close> does not catch it.
\<close>

theorem parse_akn_uri_unbalanced_bracket:
  "parse_akn_uri pl ''http://['' = Inl (ValueError ''Invalid IPv6 URL'')"
  by (simp add: parse_akn_uri_def urlparse_path_def split_scheme_def splitnetloc_def
      is_ascii_alpha_def scheme_chars_def Let_def)

subsection \<open>Percent-decoding of a bare path\<close>

text \<open>
  C10. An input that does not start with \<open>http\<close> is percent-decoded as a whole
  before the patterns are tried; so the bare path that ends in \<open>fin%40\<close> resolves
  with the language \<open>fin@\<close>.
\<close>

theorem parse_akn_uri_bare_path_decoded:
  "(\<not> prefix ''http'' uri \<longrightarrow> parse_akn_uri pl uri = Inr (match_akn_path (unquote pl uri)))
   \<and> parse_akn_uri pl ''/akn/fi/act/statute/2024/123/fin%40''
     = Inr (Some \<lparr>category = ''act'', document_type = ''statute'', year = ''2024'',
          number = ''123'', lang_and_version = ''fin@'', authority = None\<rparr>)"
proof
  show "\<not> prefix ''http'' uri \<longrightarrow> parse_akn_uri pl uri = Inr (match_akn_path (unquote pl uri))"
    by (simp add: parse_akn_uri_def)
  show "parse_akn_uri pl ''/akn/fi/act/statute/2024/123/fin%40''
     = Inr (Some \<lparr>category = ''act'', document_type = ''statute'', year = ''2024'',
          number = ''123'', lang_and_version = ''fin@'', authority = None\<rparr>)"
    by code_simp
qed

theorem parse_akn_uri_bare_path_decoded_witness:
  "\<not> prefix ''http'' ''/akn/fi/act/statute/2024/123/fin%40''
   \<and> unquote plain_lib ''/akn/fi/act/statute/2024/123/fin%40'' = ''/akn/fi/act/statute/2024/123/fin@''
   \<and> parse_akn_uri plain_lib ''/akn/fi/act/statute/2024/123/fin%40''
     = Inr (match_akn_path ''/akn/fi/act/statute/2024/123/fin@'')"
proof -
  have u: "unquote plain_lib ''/akn/fi/act/statute/2024/123/fin%40'' = ''/akn/fi/act/statute/2024/123/fin@''"
    by code_simp
  have n: "\<not> prefix ''http'' ''/akn/fi/act/statute/2024/123/fin%40''" by simp
  from parse_akn_uri_bare_path_decoded[of "''/akn/fi/act/statute/2024/123/fin%40''" plain_lib] n
  have "parse_akn_uri plain_lib ''/akn/fi/act/statute/2024/123/fin%40''
     = Inr (match_akn_path (unquote plain_lib ''/akn/fi/act/statute/2024/123/fin%40''))"
    by blast
  with u n show ?thesis by simp
qed

section \<open>Properties of listing.py\<close>

subsection \<open>The page size of a request\<close>

lemma get_json_request:
  "fst (get_json sess (build_list_path (cfg_category config) (cfg_document_type config))
         (Some (list_params config page))) = list_request config page"
  "snd (get_json sess (build_list_path (cfg_category config) (cfg_document_type config))
         (Some (list_params config page))) = sess (list_request config page)"
  by (simp_all add: get_json_def client_get_def list_request_def)

lemma list_request_limit:
  "request_param (list_request config page) ''limit'' = Some (JInt (cfg_limit config))"
  by (simp add: request_param_def list_request_def client_request_def list_params_def)

lemma list_loop_requests:
  "r \<in> set (requested (list_loop fuel sess config
       (build_list_path (cfg_category config) (cfg_document_type config)) page))
   \<Longrightarrow> \<exists>k. r = list_request config k"
proof (induction fuel arbitrary: page)
  case 0
  then show ?case by simp
next
  case (Suc fuel)
  let ?p = "build_list_path (cfg_category config) (cfg_document_type config)"
  have g: "get_json sess ?p (Some (list_params config page))
        = (list_request config page, sess (list_request config page))"
    by (simp add: get_json_def client_get_def list_request_def)
  from Suc.prems show ?case
    unfolding list_loop.simps g
    by (auto simp: Let_def split: if_splits sum.splits option.splits prod.splits
        dest: Suc.IH)
qed

text \<open>
  C1, as amended. Every request of \<open>list_documents\<close> carries the limit of its
  \<open>ListConfig\<close> unchanged. The clamp is in \<open>run_download\<close>, which builds the
  \<open>ListConfig\<close> with the limit \<open>min(args.limit, 10)\<close>: every request listed for such a
  configuration has a limit of at most 10.
\<close>

theorem list_documents_limit:
  "(\<forall>r \<in> set (requested (list_documents fuel sess config)).
      request_param r ''limit'' = Some (JInt (cfg_limit config)))
   \<and> (\<forall>r \<in> set (requested (list_documents fuel sess
                 (run_download_list_config a cat doc_type start_year end_year))).
        \<exists>l. request_param r ''limit'' = Some (JInt l) \<and> l \<le> 10)"
proof -
  have 1: "\<forall>r \<in> set (requested (list_documents fuel sess c)).
      request_param r ''limit'' = Some (JInt (cfg_limit c))" for c
    unfolding list_documents_def
    by (auto dest!: list_loop_requests simp: list_request_limit)
  have 2: "cfg_limit (run_download_list_config a cat doc_type start_year end_year) \<le> 10"
    by (simp add: run_download_list_config_def)
  from 1[of config] 1[of "run_download_list_config a cat doc_type start_year end_year"] 2
  show ?thesis by auto
qed

theorem list_documents_limit_witness:
  "list_request (run_download_list_config
       \<lparr>args_lang = ''fin@'', args_limit = 50, args_max_pages = None\<rparr>
       ''act'' ''statute'' 2024 2024) 1
     \<in> set (requested (list_documents 1 session_404
         (run_download_list_config
            \<lparr>args_lang = ''fin@'', args_limit = 50, args_max_pages = None\<rparr>
            ''act'' ''statute'' 2024 2024)))
   \<and> request_param (list_request (run_download_list_config
       \<lparr>args_lang = ''fin@'', args_limit = 50, args_max_pages = None\<rparr>
       ''act'' ''statute'' 2024 2024) 1) ''limit'' = Some (JInt 10)"
proof -
  let ?c = "run_download_list_config
       \<lparr>args_lang = ''fin@'', args_limit = 50, args_max_pages = None\<rparr>
       ''act'' ''statute'' 2024 2024"
  have m: "list_request ?c 1 \<in> set (requested (list_documents 1 session_404 ?c))"
    by (simp add: list_documents_def get_json_def client_get_def list_request_def
        session_404_def run_download_list_config_def)
  have l: "cfg_limit ?c = 10"
    by (simp add: run_download_list_config_def)
  from list_documents_limit[of 1 session_404 ?c] m l
  show ?thesis by auto
qed

text \<open>
  C1 as stated fails: \<open>list_documents\<close> with a \<open>ListConfig\<close> of limit 50 sends
  \<open>limit=50\<close>.
\<close>

theorem list_documents_limit_counterexample:
  "list_documents 1 session_404
     \<lparr>cfg_category = ''act'', cfg_document_type = ''statute'', cfg_lang_and_version = ''fin@'',
      cfg_start_year = None, cfg_end_year = None, cfg_limit = 50, cfg_max_pages = None\<rparr>
   = \<lparr>yielded = [],
      requested = [\<lparr>url = ''https://opendata.finlex.fi/finlex/avoindata/v1/akn/fi/act/statute/list'',
                    params = Some [(''format'', JStr ''json''), (''page'', JInt 1),
                                   (''limit'', JInt 50), (''langAndVersion'', JStr ''fin@'')],
                    accept = ''application/json''\<rparr>],
      stopped = RequestFailed\<rparr>"
  by (simp add: list_documents_def get_json_def client_get_def client_request_def
      session_404_def list_params_def build_list_path_def BASE_URL_def)

subsection \<open>Three pages\<close>

lemma yield_items_objects:
  "list_all is_object xs \<Longrightarrow> yield_items xs = (map item_of xs, None)"
proof (induction xs)
  case Nil
  then show ?case by simp
next
  case (Cons x xs)
  then show ?case by (cases x) simp_all
qed

text \<open>
  C3. The limit is 10 and \<open>max_pages\<close> does not end the listing before the third
  page (it is \<open>None\<close>, 0, or at least 3). The session answers the requests for pages
  1, 2 and 3 with status 200 and lists of 10, 10 and 3 JSON objects. Then, with fuel for
  three iterations or more, \<open>list_documents\<close> yields the 23 items in page order, sends
  exactly the three page requests, and stops on the short page.
\<close>

theorem list_documents_three_pages:
  assumes lim: "cfg_limit config = 10"
    and mp: "\<not> (truthy_int (cfg_max_pages config) \<and> the (cfg_max_pages config) < 3)"
    and r1: "sess (list_request config 1) = Inr resp1" "status_code resp1 = 200"
            "json_of resp1 = Some (JArr p1)"
    and r2: "sess (list_request config 2) = Inr resp2" "status_code resp2 = 200"
            "json_of resp2 = Some (JArr p2)"
    and r3: "sess (list_request config 3) = Inr resp3" "status_code resp3 = 200"
            "json_of resp3 = Some (JArr p3)"
    and len: "length p1 = 10" "length p2 = 10" "length p3 = 3"
    and obj: "list_all is_object (p1 @ p2 @ p3)"
    and fuel: "3 \<le> fuel"
  shows "list_documents fuel sess config
           = \<lparr>yielded = map item_of (p1 @ p2 @ p3),
              requested = [list_request config 1, list_request config 2, list_request config 3],
              stopped = ShortPage\<rparr>
         \<and> length (yielded (list_documents fuel sess config)) = 23"
proof -
  let ?p = "build_list_path (cfg_category config) (cfg_document_type config)"
  from fuel obtain n where n: "fuel = Suc (Suc (Suc n))"
    by (metis Suc_le_D numeral_3_eq_3 Suc_le_mono)
  have g: "get_json sess ?p (Some (list_params config k))
        = (list_request config k, sess (list_request config k))" for k
    by (simp add: get_json_def client_get_def list_request_def)
  have y: "yield_items p1 = (map item_of p1, None)" "yield_items p2 = (map item_of p2, None)"
          "yield_items p3 = (map item_of p3, None)"
    using obj by (simp_all add: yield_items_objects)
  have ne: "p1 \<noteq> []" "p2 \<noteq> []" "p3 \<noteq> []"
    using len by auto
  have pg: "\<not> (truthy_int (cfg_max_pages config) \<and> the (cfg_max_pages config) < 1)"
           "\<not> (truthy_int (cfg_max_pages config) \<and> the (cfg_max_pages config) < 2)"
    using mp by auto
  have l3: "list_loop (Suc n) sess config ?p 3
      = \<lparr>yielded = map item_of p3, requested = [list_request config 3], stopped = ShortPage\<rparr>"
    using mp by (simp add: g r3 y ne len lim)
  have l2: "list_loop (Suc (Suc n)) sess config ?p 2
      = \<lparr>yielded = map item_of (p2 @ p3),
         requested = [list_request config 2, list_request config 3], stopped = ShortPage\<rparr>"
    using pg l3 by (simp add: g r2 y ne len lim)
  have l1: "list_loop (Suc (Suc (Suc n))) sess config ?p 1
      = \<lparr>yielded = map item_of (p1 @ p2 @ p3),
         requested = [list_request config 1, list_request config 2, list_request config 3],
         stopped = ShortPage\<rparr>"
    using pg l2 by (simp add: g r1 y ne len lim)
  show ?thesis
    using l1 len by (simp add: list_documents_def n)
qed

theorem list_documents_three_pages_witness:
  "length (yielded (list_documents 3
       (three_pages \<lparr>cfg_category = ''act'', cfg_document_type = ''statute'',
          cfg_lang_and_version = ''fin@'', cfg_start_year = None, cfg_end_year = None,
          cfg_limit = 10, cfg_max_pages = None\<rparr>)
       \<lparr>cfg_category = ''act'', cfg_document_type = ''statute'',
        cfg_lang_and_version = ''fin@'', cfg_start_year = None, cfg_end_year = None,
        cfg_limit = 10, cfg_max_pages = None\<rparr>)) = 23
   \<and> length (requested (list_documents 3
       (three_pages \<lparr>cfg_category = ''act'', cfg_document_type = ''statute'',
          cfg_lang_and_version = ''fin@'', cfg_start_year = None, cfg_end_year = None,
          cfg_limit = 10, cfg_max_pages = None\<rparr>)
       \<lparr>cfg_category = ''act'', cfg_document_type = ''statute'',
        cfg_lang_and_version = ''fin@'', cfg_start_year = None, cfg_end_year = None,
        cfg_limit = 10, cfg_max_pages = None\<rparr>)) = 3
   \<and> stopped (list_documents 3
       (three_pages \<lparr>cfg_category = ''act'', cfg_document_type = ''statute'',
          cfg_lang_and_version = ''fin@'', cfg_start_year = None, cfg_end_year = None,
          cfg_limit = 10, cfg_max_pages = None\<rparr>)
       \<lparr>cfg_category = ''act'', cfg_document_type = ''statute'',
        cfg_lang_and_version = ''fin@'', cfg_start_year = None, cfg_end_year = None,
        cfg_limit = 10, cfg_max_pages = None\<rparr>) = ShortPage"
proof -
  let ?c = "\<lparr>cfg_category = ''act'', cfg_document_type = ''statute'',
        cfg_lang_and_version = ''fin@'', cfg_start_year = None, cfg_end_year = None,
        cfg_limit = 10, cfg_max_pages = None\<rparr>"
  let ?obj = "JObj [(''akn_uri'', JStr ''u''), (''status'', JStr ''NEW'')]"
  let ?full = "\<lparr>status_code = 200, content = [], json_of = Some (JArr (replicate 10 ?obj))\<rparr>"
  let ?short = "\<lparr>status_code = 200, content = [], json_of = Some (JArr (replicate 3 ?obj))\<rparr>"
  have d: "list_request ?c 3 \<noteq> list_request ?c 1" "list_request ?c 3 \<noteq> list_request ?c 2"
    by (simp_all add: list_request_def client_request_def list_params_def)
  have s1: "three_pages ?c (list_request ?c 1) = Inr ?full"
    and s2: "three_pages ?c (list_request ?c 2) = Inr ?full"
    and s3: "three_pages ?c (list_request ?c 3) = Inr ?short"
    using d by (simp_all add: three_pages_def)
  have o: "list_all is_object (replicate 10 ?obj @ replicate 10 ?obj @ replicate 3 ?obj)"
    by (simp add: list_all_iff)
  from list_documents_three_pages[where config = ?c and sess = "three_pages ?c"
      and ?resp1.0 = ?full and ?resp2.0 = ?full and ?resp3.0 = ?short
      and ?p1.0 = "replicate 10 ?obj" and ?p2.0 = "replicate 10 ?obj"
      and ?p3.0 = "replicate 3 ?obj" and fuel = 3] s1 s2 s3 o
  show ?thesis by simp
qed

section \<open>Properties of state.py\<close>

lemma completed_uris_save:
  "completed_uris (state (snd (save io m))) = completed_uris (state m)"
  by (simp add: save_def)

lemma completed_uris_do_call:
  "completed_uris (state (do_call c m))
     = completed_uris (state m) \<union> JStr ` set (marked_by c)"
proof (cases c)
  case (Pair io k)
  then show ?thesis
    by (cases k)
       (simp_all add: start_session_def mark_completed_def set_page_def completed_uris_save
          Let_def)
qed

lemma completed_uris_do_calls:
  "completed_uris (state (do_calls cs m)) = completed_uris (state m) \<union> JStr ` marked cs"
  unfolding do_calls_def marked_def
  by (induction cs arbitrary: m) (auto simp: completed_uris_do_call)

lemma dict_get_to_dict:
  "dict_get (to_dict ord s) ''current_category'' d = current_category s"
  "dict_get (to_dict ord s) ''current_document_type'' d = current_document_type s"
  "dict_get (to_dict ord s) ''current_page'' d = current_page s"
  "dict_get (to_dict ord s) ''last_uri'' d = last_uri s"
  "dict_get (to_dict ord s) ''completed_uris'' d = JArr (ord (completed_uris s))"
  "dict_get (to_dict ord s) ''started_at'' d = started_at s"
  "dict_get (to_dict ord s) ''updated_at'' d = updated_at s"
  by (simp_all add: dict_get_def to_dict_def)

text \<open>
  C5. After \<open>mark_completed(uri)\<close>, whether or not its \<open>save\<close> raises, \<open>is_completed(uri)\<close>
  is true. On a manager that started empty, after any history of \<open>start_session\<close>,
  \<open>mark_completed\<close>, \<open>set_page\<close> and \<open>save\<close>, \<open>is_completed(uri)\<close> is true exactly for the
  uris that were marked, so it is false for a uri never marked. And \<open>from_dict\<close> of
  \<open>to_dict\<close> gives the state back, the completed set with it, whatever the order in
  which the set is listed, provided the listing has exactly the elements of the set
  and these can be hashed, as the elements of a Python set can.
\<close>

theorem checkpoint_completed:
  "is_completed (snd (mark_completed io uri m)) uri
   \<and> (is_completed (do_calls cs (StateManager_init f)) uri' \<longleftrightarrow> uri' \<in> marked cs)
   \<and> (set (ord (completed_uris s)) = completed_uris s
        \<and> (\<forall>v \<in> completed_uris s. hashable v)
      \<longrightarrow> from_dict (to_dict ord s) = Inr s)"
proof (intro conjI impI)
  show "is_completed (snd (mark_completed io uri m)) uri"
    by (simp add: is_completed_def mark_completed_def save_def)
  show "is_completed (do_calls cs (StateManager_init f)) uri' \<longleftrightarrow> uri' \<in> marked cs"
    by (auto simp: is_completed_def completed_uris_do_calls StateManager_init_def
        DownloadState_default_def)
next
  assume a: "set (ord (completed_uris s)) = completed_uris s
        \<and> (\<forall>v \<in> completed_uris s. hashable v)"
  then have "list_all hashable (ord (completed_uris s))"
    by (simp add: list_all_iff)
  with a have "py_set (JArr (ord (completed_uris s))) = Inr (completed_uris s)"
    by (simp add: py_set_def)
  then show "from_dict (to_dict ord s) = Inr s"
    by (simp add: from_dict_def dict_get_to_dict)
qed

theorem checkpoint_completed_witness:
  "set (example_order {JStr ''u1'', JStr ''u2''}) = {JStr ''u1'', JStr ''u2''}
   \<and> hashable (JStr ''u1'') \<and> hashable (JStr ''u2'')
   \<and> from_dict (to_dict example_order
        (DownloadState_default\<lparr>completed_uris := {JStr ''u1'', JStr ''u2''}\<rparr>))
     = Inr (DownloadState_default\<lparr>completed_uris := {JStr ''u1'', JStr ''u2''}\<rparr>)"
proof -
  have h: "set (example_order {JStr ''u1'', JStr ''u2''}) = {JStr ''u1'', JStr ''u2''}"
    by (auto simp: example_order_def)
  have k: "\<forall>v \<in> {JStr ''u1'', JStr ''u2''}. hashable v"
    by simp
  from checkpoint_completed[of _ _ _ "[]" _ _ example_order
      "DownloadState_default\<lparr>completed_uris := {JStr ''u1'', JStr ''u2''}\<rparr>"] h k
  show ?thesis by simp
qed

section \<open>Properties of downloader.py\<close>

subsection \<open>Media links\<close>

lemma inside_descendants: "inside e t \<longleftrightarrow> e \<in> set (descendants_or_self t)"
  by (induction t) auto

lemma attr_values_iff: "v \<in> set (attr_values name e) \<longleftrightarrow> has_attr e name v"
  by (force simp: attr_values_def has_attr_def)

lemma akn_elements_iff:
  "e \<in> set (akn_elements name t) \<longleftrightarrow> inside e t \<and> tag e = (AKN_NS, name)"
  by (auto simp: akn_elements_def inside_descendants)

lemma xpath_img_src_iff:
  "v \<in> set (xpath_img_src t)
     \<longleftrightarrow> (\<exists>e. inside e t \<and> tag e = (AKN_NS, ''img'') \<and> has_attr e ''src'' v)"
  by (auto simp: xpath_img_src_def akn_elements_iff attr_values_iff)

lemma xpath_ref_href_iff:
  "v \<in> set (xpath_ref_href t)
     \<longleftrightarrow> (\<exists>e. inside e t \<and> tag e = (AKN_NS, ''ref'') \<and> has_attr e ''href'' v)"
  by (auto simp: xpath_ref_href_def akn_elements_iff attr_values_iff)

lemma inside_trans: "inside e a \<Longrightarrow> inside a t \<Longrightarrow> inside e t"
  by (induction t) auto

lemma xpath_attachment_href_iff:
  "v \<in> set (xpath_attachment_href t)
     \<longleftrightarrow> (\<exists>e a. inside a t \<and> tag a = (AKN_NS, ''attachment'') \<and> inside e a
                \<and> has_attr e ''href'' v)"
proof -
  have "v \<in> set (xpath_attachment_href t)
     \<longleftrightarrow> (\<exists>a \<in> set (akn_elements ''attachment'' t).
            \<exists>e \<in> set (descendants_or_self a). has_attr e ''href'' v)"
    by (auto simp: xpath_attachment_href_def attr_values_iff)
  also have "\<dots> \<longleftrightarrow> (\<exists>e a. inside a t \<and> tag a = (AKN_NS, ''attachment'') \<and> inside e a
                \<and> has_attr e ''href'' v)"
    by (metis akn_elements_iff inside_descendants)
  finally show ?thesis .
qed

text \<open>
  C7. When the document parses, the links extracted are exactly the values with the
  prefix \<open>media/\<close> among the three shapes: the \<open>src\<close> of an \<open>img\<close> element, the
  \<open>href\<close> of an \<open>attachment\<close> element or of an element below one, the \<open>href\<close> of a
  \<open>ref\<close> element. They form a set, so no value occurs twice. When the parser raises,
  the result is empty and nothing is raised.
\<close>

theorem extract_media_links_spec:
  "(fromstr xml_content = Inr t \<longrightarrow>
      (\<forall>v. v \<in> extract_media_links fromstr xml_content
            \<longleftrightarrow> prefix ''media/'' v \<and> media_reference t v))
   \<and> (fromstr xml_content = Inl ex \<longrightarrow> extract_media_links fromstr xml_content = {})"
proof (intro conjI impI allI)
  fix v
  assume p: "fromstr xml_content = Inr t"
  have m: "media_reference t v \<longleftrightarrow>
      v \<in> set (xpath_img_src t) \<or> v \<in> set (xpath_attachment_href t)
      \<or> v \<in> set (xpath_ref_href t)"
    unfolding media_reference_def xpath_img_src_iff xpath_ref_href_iff
      xpath_attachment_href_iff
    using inside_trans by blast
  show "v \<in> extract_media_links fromstr xml_content
            \<longleftrightarrow> prefix ''media/'' v \<and> media_reference t v"
    unfolding m by (auto simp: extract_media_links_def p)
next
  assume "fromstr xml_content = Inl ex"
  then show "extract_media_links fromstr xml_content = {}"
    by (simp add: extract_media_links_def)
qed

theorem extract_media_links_spec_witness:
  "example_parser ''<akomaNtoso/>'' = Inr example_doc
   \<and> extract_media_links example_parser ''<akomaNtoso/>''
       = {''media/image1.gif'', ''media/attachment1.pdf''}
   \<and> media_reference example_doc ''media/attachment1.pdf''
   \<and> example_parser ''not xml at all'' = Inl (OtherError ''XMLSyntaxError'')
   \<and> extract_media_links example_parser ''not xml at all'' = {}"
proof -
  have p: "example_parser ''<akomaNtoso/>'' = Inr example_doc"
    by (simp add: example_parser_def)
  have q: "example_parser ''not xml at all'' = Inl (OtherError ''XMLSyntaxError'')"
    by (simp add: example_parser_def)
  have x: "extract_media_links example_parser ''<akomaNtoso/>''
       = {''media/image1.gif'', ''media/attachment1.pdf''}"
    by (auto simp: extract_media_links_def p example_doc_def xpath_img_src_def
        xpath_attachment_href_def xpath_ref_href_def akn_elements_def attr_values_def
        AKN_NS_def)
  from extract_media_links_spec[of example_parser "''<akomaNtoso/>''" example_doc] p x
  have r: "media_reference example_doc ''media/attachment1.pdf''"
    by blast
  from extract_media_links_spec[of example_parser "''not xml at all''" _
      "OtherError ''XMLSyntaxError''"] q
  have e: "extract_media_links example_parser ''not xml at all'' = {}"
    by blast
  from p q x r e show ?thesis by simp
qed

subsection \<open>An existing primary file\<close>

text \<open>
  C4. When the uri parses, \<open>main.xml\<close> exists under the directory of the document and
  \<open>force\<close> is off, the result is \<open>skipped\<close> with exactly the path of \<open>main.xml\<close> as
  its files, and no request and no file operation is attempted. The check comes
  before the dry-run branch: with \<open>dry_run\<close> on, the result is the same.
\<close>

theorem download_document_skips_existing:
  assumes "parse_akn_uri (lib e) uri = Inr (Some info)"
    and "path_exists e (xml_path_of options info)"
    and "\<not> force options"
  shows "download_document e uri options
           = (Inr \<lparr>akn_uri = uri, status = ''skipped'', timestamp = now e,
                   files = [xml_path_of options info], error = None\<rparr>, [])
         \<and> download_document e uri (options\<lparr>dry_run := True\<rparr>)
           = (Inr \<lparr>akn_uri = uri, status = ''skipped'', timestamp = now e,
                   files = [xml_path_of options info], error = None\<rparr>, [])"
  using assms
  by (simp add: download_document_def xml_path_of_def doc_dir_of_def Let_def)

theorem download_document_skips_existing_witness:
  "parse_akn_uri (lib (example_env True None)) ''/akn/fi/act/statute/2024/123/fin@''
     = Inr (Some \<lparr>category = ''act'', document_type = ''statute'', year = ''2024'',
          number = ''123'', lang_and_version = ''fin@'', authority = None\<rparr>)
   \<and> path_exists (example_env True None) (xml_path_of (example_options True)
        \<lparr>category = ''act'', document_type = ''statute'', year = ''2024'',
          number = ''123'', lang_and_version = ''fin@'', authority = None\<rparr>)
   \<and> \<not> force (example_options True)
   \<and> download_document (example_env True None) ''/akn/fi/act/statute/2024/123/fin@''
        (example_options True)
     = (Inr \<lparr>akn_uri = ''/akn/fi/act/statute/2024/123/fin@'', status = ''skipped'',
             timestamp = ''2024-01-01T00:00:00'',
             files = [''/out/act/statute/2024/123/fin@/main.xml''], error = None\<rparr>, [])"
proof -
  let ?i = "\<lparr>category = ''act'', document_type = ''statute'', year = ''2024'',
          number = ''123'', lang_and_version = ''fin@'', authority = None\<rparr>"
  have l: "lib (example_env True None) = plain_lib" "now (example_env True None) = ''2024-01-01T00:00:00''"
    by (simp_all add: example_env_def)
  have a: "parse_akn_uri (lib (example_env True None)) ''/akn/fi/act/statute/2024/123/fin@'' = Inr (Some ?i)"
    unfolding l by code_simp
  have x: "xml_path_of (example_options True) ?i = ''/out/act/statute/2024/123/fin@/main.xml''"
    by code_simp
  have b: "path_exists (example_env True None) (xml_path_of (example_options True) ?i)"
    unfolding x by (simp add: example_env_def)
  have c: "\<not> force (example_options True)"
    by (simp add: example_options_def)
  from download_document_skips_existing[OF a b c] a b c x l
  show ?thesis by simp
qed

subsection \<open>Best-effort companions\<close>

lemma fetch_optional_prefix: "prefix (fst st) (fst (fetch_optional e rr target st))"
  by (simp add: fetch_optional_def split: sum.splits option.splits)

lemma fetch_media_links_prefix:
  "prefix (fst st) (fst (foldl (fetch_media_link e api_path media_dir) st links))"
proof (induction links arbitrary: st)
  case Nil
  then show ?case by simp
next
  case (Cons l links)
  have "prefix (fst st) (fst (fetch_media_link e api_path media_dir st l))"
    by (simp add: fetch_media_link_def fetch_optional_prefix)
  with Cons[of "fetch_media_link e api_path media_dir st l"] show ?case
    by (auto intro: prefix_order.trans)
qed

lemma fetch_assets_success:
  assumes "fetch_media options \<and> set_order e (extract_media_links (fromstring e) xml_content) \<noteq> []
           \<longrightarrow> mkdir_error e (str_path (joinpath doc_dir (parse_part ''media''))) = None"
  shows "\<exists>r tr'. fetch_assets e result options api_path doc_dir xml_content tr = (Inr r, tr')
         \<and> status r = ''success'' \<and> error r = error result
         \<and> prefix (files result) (files r)"
proof -
  define st1 where "st1 = (if fetch_pdf options
                 then fetch_optional e (get_pdf (http e) (api_path @ ''/main.pdf'') None)
                        (str_path (joinpath doc_dir (parse_part ''main.pdf''))) (files result, tr)
                 else (files result, tr))"
  define st2 where "st2 = (if fetch_zip options
                 then fetch_optional e (get_zip (http e) (api_path @ ''/main.akn'') None)
                        (str_path (joinpath doc_dir (parse_part ''main.zip''))) st1
                 else st1)"
  define links where "links = set_order e (extract_media_links (fromstring e) xml_content)"
  define media_dir where "media_dir = joinpath doc_dir (parse_part ''media'')"
  define st3 where "st3 = foldl (fetch_media_link e api_path media_dir)
                             (fst st2, snd st2 @ [Mkdir (str_path media_dir)]) links"
  have p1: "prefix (files result) (fst st1)"
    using fetch_optional_prefix[of "(files result, tr)"] by (simp add: st1_def)
  have "prefix (fst st1) (fst st2)"
    using fetch_optional_prefix[of st1] by (simp add: st2_def)
  with p1 have p2: "prefix (files result) (fst st2)"
    by (rule prefix_order.trans)
  have "prefix (fst st2) (fst st3)"
    using fetch_media_links_prefix[of "(fst st2, snd st2 @ [Mkdir (str_path media_dir)])"]
    by (simp add: st3_def)
  with p2 have p3: "prefix (files result) (fst st3)"
    by (rule prefix_order.trans)
  have unfold: "fetch_assets e result options api_path doc_dir xml_content tr
      = (if fetch_media options \<and> links \<noteq> [] then
           (case mkdir_error e (str_path media_dir) of
              Some ex \<Rightarrow> (Inl ex, snd st2 @ [Mkdir (str_path media_dir)])
            | None \<Rightarrow> (Inr (result\<lparr>status := ''success'', files := fst st3\<rparr>), snd st3))
         else (Inr (result\<lparr>status := ''success'', files := fst st2\<rparr>), snd st2))"
    unfolding fetch_assets_def Let_def st1_def st2_def st3_def links_def media_dir_def
    by (rule refl)
  show ?thesis
  proof (cases "fetch_media options \<and> links \<noteq> []")
    case True
    with assms have "mkdir_error e (str_path media_dir) = None"
      by (simp add: links_def media_dir_def)
    then have "fetch_assets e result options api_path doc_dir xml_content tr
        = (Inr (result\<lparr>status := ''success'', files := fst st3\<rparr>), snd st3)"
      by (simp only: unfold if_P[OF True] option.case)
    with p3 show ?thesis by simp
  next
    case False
    have "fetch_assets e result options api_path doc_dir xml_content tr
        = (Inr (result\<lparr>status := ''success'', files := fst st2\<rparr>), snd st2)"
      by (simp only: unfold if_not_P[OF False])
    with p2 show ?thesis by simp
  qed
qed

text \<open>
  C6, as amended. The uri parses, the call is neither skipped nor a dry run, the
  directory of the document can be created (and the media directory, when media are
  requested), the request for the XML is answered with status 200 and \<open>main.xml\<close> is
  written. Then the call returns a result with status \<open>success\<close>,
  no error, and \<open>main.xml\<close> as its first file, whatever the session answers or raises
  for the PDF, the ZIP and the media files, and whether or not their writes fail.
\<close>

theorem download_document_success:
  assumes parse: "parse_akn_uri (lib e) uri = Inr (Some info)"
    and go: "\<not> (path_exists e (xml_path_of options info) \<and> \<not> force options)"
            "\<not> dry_run options"
    and mk: "mkdir_error e (str_path (doc_dir_of options info)) = None"
    and primary: "http e (client_request (build_api_path info) None ''application/xml'')
                    = Inr resp"
                 "status_code resp = 200"
    and wr: "write_error e (xml_path_of options info) (content resp) = None"
    and md: "fetch_media options \<longrightarrow> mkdir_error e (media_dir_of options info) = None"
  shows "\<exists>r tr. download_document e uri options = (Inr r, tr)
           \<and> status r = ''success'' \<and> error r = None
           \<and> prefix [xml_path_of options info] (files r)"
proof -
  define result where "result = \<lparr>akn_uri = uri, status = ''error'', timestamp = now e,
                    files = [], error = None\<rparr>"
  define doc_dir where "doc_dir = doc_dir_of options info"
  define tr0 where "tr0 = [Mkdir (str_path doc_dir),
           Request (client_request (build_api_path info) None ''application/xml''),
           Write (xml_path_of options info) (content resp)]"
  from md have md': "fetch_media options
       \<and> set_order e (extract_media_links (fromstring e) (content resp)) \<noteq> []
       \<longrightarrow> mkdir_error e (str_path (joinpath doc_dir (parse_part ''media''))) = None"
    by (simp add: media_dir_of_def doc_dir_def)
  from fetch_assets_success[OF md',
      of "result\<lparr>files := files result @ [xml_path_of options info]\<rparr>"
         "build_api_path info" tr0]
  obtain r tr' where
    fa: "fetch_assets e (result\<lparr>files := files result @ [xml_path_of options info]\<rparr>)
           options (build_api_path info) doc_dir (content resp) tr0 = (Inr r, tr')"
    and st: "status r = ''success''" "error r = None"
    and pf: "prefix [xml_path_of options info] (files r)"
    by (auto simp: result_def)
  have fx: "fetch_xml e result options info doc_dir
              (joinpath doc_dir (parse_part ''main.xml'')) [Mkdir (str_path doc_dir)]
            = (Inr r, tr')"
    using primary wr fa
    by (simp add: fetch_xml_def get_xml_def client_get_def xml_path_of_def doc_dir_def
        tr0_def)
  have "download_document e uri options = (Inr r, tr')"
    using parse go mk fx
    by (auto simp: download_document_def Let_def xml_path_of_def doc_dir_of_def
        doc_dir_def result_def)
  with st pf show ?thesis by simp
qed

theorem download_document_success_witness:
  "http (example_env False None)
       (client_request ''/akn/fi/act/statute/2024/123/fin@'' None ''application/xml'')
     = Inr \<lparr>status_code = 200, content = ''<akomaNtoso/>'', json_of = None\<rparr>
   \<and> http (example_env False None)
       (client_request ''/akn/fi/act/statute/2024/123/fin@/main.pdf'' None ''application/pdf'')
     = Inl (OtherError ''timeout'')
   \<and> fetch_pdf (example_options False)
   \<and> (\<exists>r tr. download_document (example_env False None)
                 ''/akn/fi/act/statute/2024/123/fin@'' (example_options False) = (Inr r, tr)
         \<and> status r = ''success'')"
proof -
  let ?i = "\<lparr>category = ''act'', document_type = ''statute'', year = ''2024'',
          number = ''123'', lang_and_version = ''fin@'', authority = None\<rparr>"
  let ?e = "example_env False None"
  let ?o = "example_options False"
  let ?resp = "\<lparr>status_code = 200, content = ''<akomaNtoso/>'', json_of = None\<rparr>"
  have l: "lib ?e = plain_lib"
    by (simp add: example_env_def)
  have a: "parse_akn_uri (lib ?e) ''/akn/fi/act/statute/2024/123/fin@'' = Inr (Some ?i)"
    unfolding l by code_simp
  have b: "\<not> (path_exists ?e (xml_path_of ?o ?i) \<and> \<not> force ?o)"
    by (simp add: example_env_def)
  have c: "\<not> dry_run ?o" "fetch_pdf ?o"
    by (simp_all add: example_options_def)
  have d: "mkdir_error ?e (str_path (doc_dir_of ?o ?i)) = None"
       "mkdir_error ?e (media_dir_of ?o ?i) = None"
    by (simp_all add: example_env_def)
  have ap: "build_api_path ?i = ''/akn/fi/act/statute/2024/123/fin@''"
    by (simp add: build_api_path_def)
  have h: "http ?e (client_request (build_api_path ?i) None ''application/xml'') = Inr ?resp"
    by (simp add: example_env_def example_session_def client_request_def)
  have h2: "http ?e (client_request ''/akn/fi/act/statute/2024/123/fin@/main.pdf'' None
              ''application/pdf'') = Inl (OtherError ''timeout'')"
    by (simp add: example_env_def example_session_def client_request_def)
  have x: "xml_path_of ?o ?i = ''/out/act/statute/2024/123/fin@/main.xml''"
    by code_simp
  have w: "write_error ?e (xml_path_of ?o ?i) (content ?resp) = None"
    unfolding x by (simp add: example_env_def)
  from download_document_success[OF a b c(1) d(1) h _ w] d(2) h h2 c(2) ap
  show ?thesis by auto
qed

text \<open>
  C6 as stated fails: the write of \<open>main.xml\<close> is inside the same \<open>try\<close> as the
  request, so when the XML arrives with status 200 and the write raises, the result
  is \<open>error\<close>.
\<close>

theorem download_document_write_failure:
  "http (example_env False (Some (OtherError ''No space left on device'')))
       (client_request ''/akn/fi/act/statute/2024/123/fin@'' None ''application/xml'')
     = Inr \<lparr>status_code = 200, content = ''<akomaNtoso/>'', json_of = None\<rparr>
   \<and> download_document (example_env False (Some (OtherError ''No space left on device'')))
        ''/akn/fi/act/statute/2024/123/fin@'' (example_options False)
     = (Inr \<lparr>akn_uri = ''/akn/fi/act/statute/2024/123/fin@'', status = ''error'',
             timestamp = ''2024-01-01T00:00:00'', files = [],
             error = Some ''Failed to fetch XML: No space left on device''\<rparr>,
        [Mkdir ''/out/act/statute/2024/123/fin@'',
         Request \<lparr>url = ''https://opendata.finlex.fi/finlex/avoindata/v1/akn/fi/act/statute/2024/123/fin@'',
                  params = None, accept = ''application/xml''\<rparr>,
         Write ''/out/act/statute/2024/123/fin@/main.xml'' ''<akomaNtoso/>''])"
  by code_simp

end
